theory Spec2Isabelle
  imports Complex_Main
begin

section \<open>Exceptions and Python values\<close>

text \<open>
  The exceptions of \<^verbatim>\<open>benchmark.py\<close>, each with its message (\<^verbatim>\<open>str(e)\<close>).
  Every constructor is a subclass of Python's \<^verbatim>\<open>Exception\<close>; \<open>OtherException\<close> stands
  for any further subclass, with its class name.
\<close>

datatype exn =
    ValueError string
  | RuntimeError string
  | FileNotFoundError string
  | OverflowError string
  | IndexError string
  | ZeroDivisionError string
  | OtherException string string

fun str_exn :: "exn \<Rightarrow> string" where
  "str_exn (ValueError m) = m"
| "str_exn (RuntimeError m) = m"
| "str_exn (FileNotFoundError m) = m"
| "str_exn (OverflowError m) = m"
| "str_exn (IndexError m) = m"
| "str_exn (ZeroDivisionError m) = m"
| "str_exn (OtherException c m) = m"

text \<open>
  A Python \<^verbatim>\<open>float\<close>: a finite double, given by its exact value, an infinity or a NaN.
\<close>

datatype pyfloat = Finite real | PosInf | NegInf | NaN

text \<open>
  \<^verbatim>\<open>x * k\<close> for a float \<open>x\<close> and a positive power of two \<open>k\<close> (1024 here): the product of
  a double by a power of two is exact until it leaves the range of the doubles, where it
  becomes an infinity.
\<close>

definition fmul :: "pyfloat \<Rightarrow> real \<Rightarrow> pyfloat" where
  "fmul x k =
     (case x of
        Finite r \<Rightarrow>
          (if 2 ^ 1024 \<le> r * k then PosInf
           else if r * k \<le> - (2 ^ 1024) then NegInf
           else Finite (r * k))
      | PosInf \<Rightarrow> PosInf
      | NegInf \<Rightarrow> NegInf
      | NaN \<Rightarrow> NaN)"

text \<open>\<^verbatim>\<open>int(x)\<close> for a float: truncation towards zero; infinities and NaN raise.\<close>

definition trunc :: "real \<Rightarrow> int" where
  "trunc r = (if 0 \<le> r then \<lfloor>r\<rfloor> else \<lceil>r\<rceil>)"

definition int_of_float :: "pyfloat \<Rightarrow> exn + int" where
  "int_of_float x =
     (case x of
        Finite r \<Rightarrow> Inr (trunc r)
      | PosInf \<Rightarrow> Inl (OverflowError ''cannot convert float infinity to integer'')
      | NegInf \<Rightarrow> Inl (OverflowError ''cannot convert float infinity to integer'')
      | NaN \<Rightarrow> Inl (ValueError ''cannot convert float NaN to integer''))"

text \<open>
  The two builtin parsers \<^verbatim>\<open>float(s)\<close> and \<^verbatim>\<open>int(s)\<close> belong to the interpreter, not to
  the repository: they are parameters. Each either raises or returns a value.
\<close>

record builtins =
  py_float :: "string \<Rightarrow> exn + pyfloat"
  py_int :: "string \<Rightarrow> exn + int"

section \<open>Strings\<close>

text \<open>
  Strings are ASCII. \<^verbatim>\<open>str.upper\<close> maps \<^verbatim>\<open>a\<close>..\<^verbatim>\<open>z\<close> to \<^verbatim>\<open>A\<close>..\<^verbatim>\<open>Z\<close>; \<^verbatim>\<open>str.strip\<close> removes the
  characters for which \<^verbatim>\<open>str.isspace\<close> holds (codes 9 to 13, 28 to 32) from both ends.
\<close>

definition is_ascii :: "char \<Rightarrow> bool" where
  "is_ascii c = ((of_char c :: nat) < 128)"

definition upper_char :: "char \<Rightarrow> char" where
  "upper_char c =
     (let n = (of_char c :: nat) in if 97 \<le> n \<and> n \<le> 122 then char_of (n - 32) else c)"

definition upper :: "string \<Rightarrow> string" where
  "upper s = map upper_char s"

definition isspace :: "char \<Rightarrow> bool" where
  "isspace c = (let n = (of_char c :: nat) in (9 \<le> n \<and> n \<le> 13) \<or> (28 \<le> n \<and> n \<le> 32))"

definition strip :: "string \<Rightarrow> string" where
  "strip s = rev (dropWhile isspace (rev (dropWhile isspace s)))"

definition endswith :: "string \<Rightarrow> char \<Rightarrow> bool" where
  "endswith s c = (s \<noteq> [] \<and> last s = c)"

section \<open>parse\_size\<close>

text \<open>
  \<^verbatim>\<open>parse_size\<close>, lines 15 to 25: the suffix is tested on the uppercased, stripped
  string; a suffixed size goes through \<^verbatim>\<open>float\<close>, an unsuffixed one through \<^verbatim>\<open>int\<close>.
\<close>

definition float_then :: "exn + pyfloat \<Rightarrow> (pyfloat \<Rightarrow> exn + int) \<Rightarrow> exn + int" where
  "float_then r f = (case r of Inl e \<Rightarrow> Inl e | Inr x \<Rightarrow> f x)"

definition parse_size :: "builtins \<Rightarrow> string \<Rightarrow> exn + int" where
  "parse_size b size_str0 =
     (let size_str = strip (upper size_str0) in
      if endswith size_str CHR ''K'' then
        float_then (py_float b (butlast size_str)) (\<lambda>x. int_of_float (fmul x 1024))
      else if endswith size_str CHR ''M'' then
        float_then (py_float b (butlast size_str))
          (\<lambda>x. int_of_float (fmul (fmul x 1024) 1024))
      else if endswith size_str CHR ''G'' then
        float_then (py_float b (butlast size_str))
          (\<lambda>x. int_of_float (fmul (fmul (fmul x 1024) 1024) 1024))
      else py_int b size_str)"

section \<open>calculate\_statistics\<close>

text \<open>
  What \<^verbatim>\<open>calculate_statistics\<close> takes from outside the repository is a parameter: the
  functions of numpy and scipy that it calls, none of which raises on a list of floats,
  and the arithmetic of the doubles, that is the rounding of a real number to the
  nearest double (\<open>to_double\<close>) and the division of two floats by a divisor that is not
  zero (\<open>fdiv\<close>). Every result is a Python float, which may be an infinity or a NaN.
\<close>

record stats_lib =
  np_mean :: "pyfloat list \<Rightarrow> pyfloat"
  np_median :: "pyfloat list \<Rightarrow> pyfloat"
  np_std :: "pyfloat list \<Rightarrow> pyfloat"
  np_sqrt :: "int \<Rightarrow> pyfloat"
  np_percentile :: "pyfloat list \<Rightarrow> int \<Rightarrow> pyfloat"
  t_interval :: "pyfloat \<Rightarrow> int \<Rightarrow> pyfloat \<Rightarrow> pyfloat \<Rightarrow> pyfloat \<times> pyfloat"
  to_double :: "real \<Rightarrow> real"
  fdiv :: "pyfloat \<Rightarrow> pyfloat \<Rightarrow> pyfloat"

text \<open>\<^verbatim>\<open>x > 0\<close> for a float: a NaN is not greater than zero.\<close>

definition fpos :: "pyfloat \<Rightarrow> bool" where
  "fpos x = (case x of Finite r \<Rightarrow> 0 < r | PosInf \<Rightarrow> True | NegInf \<Rightarrow> False | NaN \<Rightarrow> False)"

text \<open>
  The conversion of an \<^verbatim>\<open>int\<close> that is divided by a float: an integer that rounds to a
  double is converted, one whose magnitude reaches \<open>2 ^ 1024 - 2 ^ 970\<close> raises.
\<close>

definition converts_to_float :: "int \<Rightarrow> bool" where
  "converts_to_float n = (\<bar>n\<bar> < 2 ^ 1024 - 2 ^ 970)"

definition float_of_int :: "stats_lib \<Rightarrow> int \<Rightarrow> exn + pyfloat" where
  "float_of_int lib n =
     (if converts_to_float n then Inr (Finite (to_double lib (real_of_int n)))
      else Inl (OverflowError ''int too large to convert to float''))"

text \<open>\<^verbatim>\<open>x / y\<close> for two floats: a divisor of zero raises.\<close>

definition py_truediv :: "stats_lib \<Rightarrow> pyfloat \<Rightarrow> pyfloat \<Rightarrow> exn + pyfloat" where
  "py_truediv lib x y =
     (if y = Finite 0 then Inl (ZeroDivisionError ''float division by zero'')
      else Inr (fdiv lib x y))"

text \<open>\<^verbatim>\<open>size_bytes / lat / 1e6\<close>, and the list comprehension of line 52 around it.\<close>

definition bandwidth :: "stats_lib \<Rightarrow> int \<Rightarrow> pyfloat \<Rightarrow> exn + pyfloat" where
  "bandwidth lib size_bytes lat =
     (case float_of_int lib size_bytes of
        Inl e \<Rightarrow> Inl e
      | Inr x \<Rightarrow>
          (case py_truediv lib x lat of
             Inl e \<Rightarrow> Inl e
           | Inr y \<Rightarrow> py_truediv lib y (Finite 1000000)))"

fun bandwidths_of :: "stats_lib \<Rightarrow> int \<Rightarrow> pyfloat list \<Rightarrow> exn + pyfloat list" where
  "bandwidths_of lib size_bytes [] = Inr []"
| "bandwidths_of lib size_bytes (lat # lats) =
     (if fpos lat then
        (case bandwidth lib size_bytes lat of
           Inl e \<Rightarrow> Inl e
         | Inr bw \<Rightarrow>
             (case bandwidths_of lib size_bytes lats of
                Inl e \<Rightarrow> Inl e
              | Inr bws \<Rightarrow> Inr (bw # bws)))
      else bandwidths_of lib size_bytes lats)"

text \<open>
  The dictionaries that are returned: the inner one with the keys \<^verbatim>\<open>mean\<close>, \<^verbatim>\<open>median\<close>,
  \<^verbatim>\<open>std_dev\<close>, \<^verbatim>\<open>confidence_interval\<close> and \<^verbatim>\<open>percentiles\<close>, the outer one with the keys
  \<^verbatim>\<open>latency\<close> and \<^verbatim>\<open>bandwidth_mb_s\<close>. The percentiles are a dictionary from the labels
  \<^verbatim>\<open>50th\<close>, \<^verbatim>\<open>90th\<close>, \<^verbatim>\<open>99th\<close>, kept in insertion order.
\<close>

record summary =
  mean :: pyfloat
  median :: pyfloat
  std_dev :: pyfloat
  confidence_interval :: "pyfloat \<times> pyfloat"
  percentiles :: "(string \<times> pyfloat) list"

record statistics =
  latency :: summary
  bandwidth_mb_s :: summary

definition calculate_statistics ::
  "stats_lib \<Rightarrow> pyfloat list \<Rightarrow> int \<Rightarrow> exn + statistics" where
  "calculate_statistics lib latencies size_bytes =
     (if latencies = [] then Inl (ValueError ''No latencies provided for statistics.'')
      else
        let mean_lat = np_mean lib latencies;
            median_lat = np_median lib latencies;
            std_dev_lat = np_std lib latencies;
            confidence_level = Finite (to_double lib (95 / 100));
            degrees_freedom = int (length latencies) - 1;
            sample_standard_error =
              fdiv lib std_dev_lat (np_sqrt lib (int (length latencies)));
            ci_lat = t_interval lib confidence_level degrees_freedom mean_lat
                       sample_standard_error;
            lat_percentiles =
              [(''50th'', np_percentile lib latencies 50),
               (''90th'', np_percentile lib latencies 90),
               (''99th'', np_percentile lib latencies 99)]
        in
        (case bandwidths_of lib size_bytes latencies of
           Inl e \<Rightarrow> Inl e
         | Inr bandwidths \<Rightarrow>
             if length bandwidths \<noteq> length latencies then
               Inl (ValueError ''Some latencies were zero; cannot compute bandwidth.'')
             else
               let mean_bw = np_mean lib bandwidths;
                   median_bw = np_median lib bandwidths;
                   std_dev_bw = np_std lib bandwidths;
                   sample_standard_error_bw =
                     fdiv lib std_dev_bw (np_sqrt lib (int (length bandwidths)));
                   ci_bw = t_interval lib confidence_level degrees_freedom mean_bw
                             sample_standard_error_bw;
                   bw_percentiles =
                     [(''50th'', np_percentile lib bandwidths 50),
                      (''90th'', np_percentile lib bandwidths 90),
                      (''99th'', np_percentile lib bandwidths 99)]
               in
               Inr \<lparr>latency =
                      \<lparr>mean = mean_lat, median = median_lat, std_dev = std_dev_lat,
                       confidence_interval = ci_lat, percentiles = lat_percentiles\<rparr>,
                    bandwidth_mb_s =
                      \<lparr>mean = mean_bw, median = median_bw, std_dev = std_dev_bw,
                       confidence_interval = ci_bw, percentiles = bw_percentiles\<rparr>\<rparr>))"

section \<open>The world outside the program\<close>

text \<open>
  A path is its list of components; \<^verbatim>\<open>p / name\<close> appends one and \<^verbatim>\<open>p.parent\<close> drops the
  last one. \<^verbatim>\<open>Path(str(p))\<close> is \<open>p\<close> again, so \<^verbatim>\<open>benchmark\<close> takes the path itself.
\<close>

type_synonym path = "string list"

definition str_path :: "path \<Rightarrow> string" where
  "str_path p = concat (map (\<lambda>c. CHR ''/'' # c) p)"

text \<open>Every call that leaves the program is recorded, in the order of the calls.\<close>

datatype event =
    Rmtree path
  | LoadAsyncIO
  | NewHandle int int bool bool int
  | Mkdir path
  | TorchEmpty int
  | PerfCounter real
  | AsyncPwrite int path int
  | AsyncPread int path int
  | Wait
  | Unlink path

text \<open>
  The state of the world: the number of clock readings taken so far, the calls made so
  far, and the paths that exist in the file system.
\<close>

record world =
  ticks :: nat
  trace :: "event list"
  fs :: "path set"

text \<open>
  What the run cannot decide by itself: the successive readings of
  \<^verbatim>\<open>time.perf_counter\<close>, whether loading the AsyncIO extension or constructing the handle
  raises, whether \<^verbatim>\<open>shutil.rmtree\<close> fails on a tree that exists, and which directories
  are writable. The other external calls are taken to return normally, except
  \<^verbatim>\<open>torch.empty\<close>, which rejects a negative size.
\<close>

record system =
  perf_clock :: "nat \<Rightarrow> real"
  load_fault :: "exn option"
  handle_fault :: "int \<Rightarrow> int \<Rightarrow> bool \<Rightarrow> bool \<Rightarrow> int \<Rightarrow> exn option"
  rmtree_fault :: "exn option"
  writable :: "path \<Rightarrow> bool"

record aio_handle =
  block_size :: int
  queue_depth :: int
  single_submit :: bool
  overlap_events :: bool
  num_threads :: int

text \<open>A raise carries the world as it was when the exception left the function.\<close>

type_synonym 'a outcome = "(exn \<times> world) + 'a"

definition log_event :: "event \<Rightarrow> world \<Rightarrow> world" where
  "log_event e w = w\<lparr>trace := trace w @ [e]\<rparr>"

definition perf_counter :: "system \<Rightarrow> world \<Rightarrow> real \<times> world" where
  "perf_counter sys w =
     (let t = perf_clock sys (ticks w)
      in (t, log_event (PerfCounter t) (w\<lparr>ticks := Suc (ticks w)\<rparr>)))"

text \<open>Decimal digits of an integer, as an f-string prints it.\<close>

fun digits :: "nat \<Rightarrow> string" where
  "digits n =
     (if n < 10 then [''0123456789'' ! n]
      else digits (n div 10) @ [''0123456789'' ! (n mod 10)])"

definition str_int :: "int \<Rightarrow> string" where
  "str_int i = (if i < 0 then CHR ''-'' # digits (nat (- i)) else digits (nat i))"

text \<open>\<^verbatim>\<open>torch.empty(size, ...)\<close>: the tensor is represented by its size (\<open>sz\<close>, as \<open>size\<close> is taken in HOL).\<close>

definition torch_empty :: "int \<Rightarrow> world \<Rightarrow> (int \<times> world) outcome" where
  "torch_empty sz w =
     (let w1 = log_event (TorchEmpty sz) w in
      if sz < 0 then
        Inl (RuntimeError (''Trying to create tensor with negative dimension '' @ str_int sz),
             w1)
      else Inr (sz, w1))"

definition async_pwrite :: "aio_handle \<Rightarrow> int \<Rightarrow> path \<Rightarrow> int \<Rightarrow> world \<Rightarrow> world" where
  "async_pwrite h tensor file offset w =
     (log_event (AsyncPwrite tensor file offset) w)\<lparr>fs := insert file (fs w)\<rparr>"

definition async_pread :: "aio_handle \<Rightarrow> int \<Rightarrow> path \<Rightarrow> int \<Rightarrow> world \<Rightarrow> world" where
  "async_pread h tensor file offset w = log_event (AsyncPread tensor file offset) w"

definition wait :: "aio_handle \<Rightarrow> world \<Rightarrow> world" where
  "wait h w = log_event Wait w"

text \<open>\<^verbatim>\<open>Path.unlink(missing_ok)\<close>: a missing file raises unless \<open>missing_ok\<close>.\<close>

definition unlink :: "bool \<Rightarrow> path \<Rightarrow> world \<Rightarrow> world outcome" where
  "unlink missing_ok file w =
     (let w1 = log_event (Unlink file) w in
      if file \<notin> fs w \<and> \<not> missing_ok then Inl (FileNotFoundError (str_path file), w1)
      else Inr (w1\<lparr>fs := fs w - {file}\<rparr>))"

text \<open>\<^verbatim>\<open>Path.mkdir(parents=True, exist_ok=True)\<close>: the directory and its missing ancestors.\<close>

definition mkdir :: "path \<Rightarrow> world \<Rightarrow> world" where
  "mkdir p w =
     (log_event (Mkdir p) w)\<lparr>fs := fs w \<union> set (map (\<lambda>k. take k p) [0..<Suc (length p)])\<rparr>"

text \<open>
  \<^verbatim>\<open>shutil.rmtree(p)\<close>: a missing path raises \<^verbatim>\<open>FileNotFoundError\<close>; otherwise the
  deletion fails as the system says, or removes \<open>p\<close> and everything below it.
\<close>

definition rmtree :: "system \<Rightarrow> path \<Rightarrow> world \<Rightarrow> world outcome" where
  "rmtree sys p w =
     (let w1 = log_event (Rmtree p) w in
      if p \<notin> fs w then Inl (FileNotFoundError (str_path p), w1)
      else
        (case rmtree_fault sys of
           Some e \<Rightarrow> Inl (e, w1)
         | None \<Rightarrow> Inr (w1\<lparr>fs := {q \<in> fs w. take (length p) q \<noteq> p}\<rparr>)))"

text \<open>A \<^verbatim>\<open>for\<close> loop whose body may raise: the first raise ends the loop.\<close>

fun for_each :: "('i \<Rightarrow> 's \<Rightarrow> 's outcome) \<Rightarrow> 'i list \<Rightarrow> 's \<Rightarrow> 's outcome" where
  "for_each body [] st = Inr st"
| "for_each body (x # xs) st =
     (case body x st of Inl err \<Rightarrow> Inl err | Inr st' \<Rightarrow> for_each body xs st')"

section \<open>get\_aio\_handle\<close>

text \<open>The body of the \<^verbatim>\<open>try\<close>, lines 93 and 94.\<close>

definition get_aio_handle_try ::
  "system \<Rightarrow> int \<Rightarrow> int \<Rightarrow> int \<Rightarrow> world \<Rightarrow> (aio_handle \<times> world) outcome" where
  "get_aio_handle_try sys bs qd threads w =
     (let w1 = log_event LoadAsyncIO w in
      case load_fault sys of
        Some e \<Rightarrow> Inl (e, w1)
      | None \<Rightarrow>
          (let w2 = log_event (NewHandle bs qd False True threads) w1 in
           case handle_fault sys bs qd False True threads of
             Some e \<Rightarrow> Inl (e, w2)
           | None \<Rightarrow>
               Inr (\<lparr>block_size = bs, queue_depth = qd, single_submit = False,
                     overlap_events = True, num_threads = threads\<rparr>, w2)))"

text \<open>\<^verbatim>\<open>except Exception as e: raise RuntimeError(...)\<close>, lines 95 and 96.\<close>

definition get_aio_handle ::
  "system \<Rightarrow> int \<Rightarrow> int \<Rightarrow> int \<Rightarrow> world \<Rightarrow> (aio_handle \<times> world) outcome" where
  "get_aio_handle sys bs qd threads w =
     (case get_aio_handle_try sys bs qd threads w of
        Inl (e, w') \<Rightarrow> Inl (RuntimeError (''Failed to initialize AIO handle: '' @ str_exn e), w')
      | Inr r \<Rightarrow> Inr r)"

section \<open>benchmark\<close>

definition test_file_name :: "int \<Rightarrow> int \<Rightarrow> string" where
  "test_file_name sz i = ''test_write_'' @ str_int sz @ ''_'' @ str_int i @ ''.swap''"

text \<open>
  One pass of the write loop, lines 111 to 120. The loop carries \<^verbatim>\<open>test_files\<close>,
  \<^verbatim>\<open>write_latencies\<close> and the world.
\<close>

definition write_iteration ::
  "system \<Rightarrow> aio_handle \<Rightarrow> path \<Rightarrow> int \<Rightarrow> nat \<Rightarrow> path list \<times> real list \<times> world
     \<Rightarrow> (path list \<times> real list \<times> world) outcome" where
  "write_iteration sys h nvme_dir sz i st =
     (case st of (test_files, write_latencies, w) \<Rightarrow>
        (case torch_empty sz w of
           Inl err \<Rightarrow> Inl err
         | Inr (tensor, w1) \<Rightarrow>
             (let test_file = nvme_dir @ [test_file_name sz (int i)];
                  test_files1 = test_files @ [test_file];
                  (start, w2) = perf_counter sys w1;
                  w3 = async_pwrite h tensor test_file 0 w2;
                  w4 = wait h w3;
                  (finish, w5) = perf_counter sys w4
              in Inr (test_files1, write_latencies @ [finish - start], w5))))"

text \<open>
  One pass of the read loop, lines 138 to 146: \<^verbatim>\<open>test_files[i]\<close> raises when \<open>i\<close> is
  not an index of the list.
\<close>

definition read_iteration ::
  "system \<Rightarrow> aio_handle \<Rightarrow> int \<Rightarrow> nat \<Rightarrow> path list \<times> real list \<times> world
     \<Rightarrow> (path list \<times> real list \<times> world) outcome" where
  "read_iteration sys h sz i st =
     (case st of (test_files, read_latencies, w) \<Rightarrow>
        (case torch_empty sz w of
           Inl err \<Rightarrow> Inl err
         | Inr (tensor, w1) \<Rightarrow>
             if \<not> i < length test_files then Inl (IndexError ''list index out of range'', w1)
             else
               (let test_file = test_files ! i;
                    (start, w2) = perf_counter sys w1;
                    w3 = async_pread h tensor test_file 0 w2;
                    w4 = wait h w3;
                    (finish, w5) = perf_counter sys w4
                in Inr (test_files, read_latencies @ [finish - start], w5))))"

text \<open>The two loops over \<^verbatim>\<open>range(iterations)\<close>, which is empty when \<open>iterations \<le> 0\<close>.\<close>

definition write_phase ::
  "system \<Rightarrow> aio_handle \<Rightarrow> path \<Rightarrow> int \<Rightarrow> int \<Rightarrow> world
     \<Rightarrow> (path list \<times> real list \<times> world) outcome" where
  "write_phase sys h nvme_dir sz iterations w =
     for_each (write_iteration sys h nvme_dir sz) [0..<nat iterations] ([], [], w)"

definition read_phase ::
  "system \<Rightarrow> aio_handle \<Rightarrow> int \<Rightarrow> int \<Rightarrow> path list \<Rightarrow> world
     \<Rightarrow> (path list \<times> real list \<times> world) outcome" where
  "read_phase sys h sz iterations test_files w =
     for_each (read_iteration sys h sz) [0..<nat iterations] (test_files, [], w)"

text \<open>The cleanup loop, lines 162 and 163.\<close>

definition cleanup :: "path list \<Rightarrow> world \<Rightarrow> world outcome" where
  "cleanup test_files w = for_each (unlink True) test_files w"

text \<open>
  The body of the loop over the sizes, lines 105 to 164. The latencies, differences of
  two clock readings, are finite floats. The statistics are only printed; the printing
  is left out, the raise of \<^verbatim>\<open>calculate_statistics\<close> is not.
\<close>

definition benchmark_size ::
  "system \<Rightarrow> stats_lib \<Rightarrow> aio_handle \<Rightarrow> int \<Rightarrow> path \<Rightarrow> int \<Rightarrow> world \<Rightarrow> world outcome" where
  "benchmark_size sys lib h iterations nvme_dir sz w =
     (case write_phase sys h nvme_dir sz iterations w of
        Inl err \<Rightarrow> Inl err
      | Inr (test_files, write_latencies, w1) \<Rightarrow>
          (case calculate_statistics lib (map Finite write_latencies) sz of
             Inl e \<Rightarrow> Inl (e, w1)
           | Inr write_stats \<Rightarrow>
               (case read_phase sys h sz iterations test_files w1 of
                  Inl err \<Rightarrow> Inl err
                | Inr (test_files2, read_latencies, w2) \<Rightarrow>
                    (case calculate_statistics lib (map Finite read_latencies) sz of
                       Inl e \<Rightarrow> Inl (e, w2)
                     | Inr read_stats \<Rightarrow> cleanup test_files w2))))"

definition benchmark ::
  "system \<Rightarrow> stats_lib \<Rightarrow> aio_handle \<Rightarrow> int list \<Rightarrow> int \<Rightarrow> path \<Rightarrow> world \<Rightarrow> world outcome" where
  "benchmark sys lib h tensor_sizes iterations nvme_path w =
     (let nvme_dir = nvme_path;
          w1 = mkdir nvme_dir w
      in for_each (benchmark_size sys lib h iterations nvme_dir) tensor_sizes w1)"

section \<open>main\<close>

text \<open>
  The parsed command line. \<open>arg_nvme_path\<close> is the path after \<^verbatim>\<open>expanduser\<close>.
\<close>

record args =
  arg_nvme_path :: path
  arg_sizes :: "string list"
  arg_iterations :: int
  arg_threads :: int
  arg_queue_depth :: int
  arg_block_size :: string

text \<open>The list comprehension of line 210: the first size that does not parse raises.\<close>

fun parse_sizes :: "builtins \<Rightarrow> string list \<Rightarrow> exn + int list" where
  "parse_sizes b [] = Inr []"
| "parse_sizes b (s # ss) =
     (case parse_size b s of
        Inl e \<Rightarrow> Inl e
      | Inr n \<Rightarrow> (case parse_sizes b ss of Inl e \<Rightarrow> Inl e | Inr ns \<Rightarrow> Inr (n # ns)))"

text \<open>Lines 209 to 213: only a \<^verbatim>\<open>ValueError\<close> is caught and raised again with a prefix.\<close>

definition parse_arguments :: "builtins \<Rightarrow> args \<Rightarrow> exn + int list \<times> int" where
  "parse_arguments b a =
     (case (case parse_sizes b (arg_sizes a) of
              Inl e \<Rightarrow> Inl e
            | Inr tensor_sizes \<Rightarrow>
                (case parse_size b (arg_block_size a) of
                   Inl e \<Rightarrow> Inl e
                 | Inr bs \<Rightarrow> Inr (tensor_sizes, bs))) of
        Inl (ValueError m) \<Rightarrow> Inl (ValueError (''Invalid size format: '' @ m))
      | Inl e \<Rightarrow> Inl e
      | Inr r \<Rightarrow> Inr r)"

text \<open>Lines 220 to 227: a missing directory is passed over, any other failure is fatal.\<close>

definition clean_nvme_dir :: "system \<Rightarrow> path \<Rightarrow> world \<Rightarrow> world outcome" where
  "clean_nvme_dir sys nvme_path w =
     (case rmtree sys nvme_path w of
        Inr w1 \<Rightarrow> Inr w1
      | Inl (FileNotFoundError m, w1) \<Rightarrow> Inr w1
      | Inl (e, w1) \<Rightarrow>
          Inl (RuntimeError (''Failed to clean NVMe directory: '' @ str_exn e), w1))"

text \<open>
  The body of the last \<^verbatim>\<open>try\<close>, lines 231 and 232. Its handler prints the exception and
  raises it again, so that the outcome of the block is the outcome of its body. (The
  file is run as a script, where \<^verbatim>\<open>sys\<close> is imported before \<^verbatim>\<open>main\<close> is called.)
\<close>

definition run_benchmark ::
  "stats_lib \<Rightarrow> system \<Rightarrow> int \<Rightarrow> int \<Rightarrow> int \<Rightarrow> int list \<Rightarrow> int \<Rightarrow> path \<Rightarrow> world
     \<Rightarrow> world outcome" where
  "run_benchmark lib sys bs qd threads tensor_sizes iterations nvme_path w =
     (case get_aio_handle sys bs qd threads w of
        Inl err \<Rightarrow> Inl err
      | Inr (aio, w1) \<Rightarrow> benchmark sys lib aio tensor_sizes iterations nvme_path w1)"

definition main :: "builtins \<Rightarrow> stats_lib \<Rightarrow> system \<Rightarrow> args \<Rightarrow> world \<Rightarrow> world outcome" where
  "main b lib sys a w =
     (case parse_arguments b a of
        Inl e \<Rightarrow> Inl (e, w)
      | Inr (tensor_sizes, bs) \<Rightarrow>
          (let nvme_path = arg_nvme_path a;
               parent_dir = butlast nvme_path
           in
           if parent_dir \<notin> fs w \<or> \<not> writable sys parent_dir then
             Inl (ValueError (''Parent of NVMe path '' @ str_path nvme_path
                    @ '' must exist and be writable.''), w)
           else
             (case clean_nvme_dir sys nvme_path w of
                Inl err \<Rightarrow> Inl err
              | Inr w1 \<Rightarrow>
                  run_benchmark lib sys bs (arg_queue_depth a) (arg_threads a) tensor_sizes
                    (arg_iterations a) nvme_path w1)))"

section \<open>Observing a run\<close>

definition world_of :: "world outcome \<Rightarrow> world" where
  "world_of r = (case r of Inl (e, w) \<Rightarrow> w | Inr w \<Rightarrow> w)"

text \<open>The calls made between two worlds of one run.\<close>

definition new_events :: "world \<Rightarrow> world \<Rightarrow> event list" where
  "new_events w w' = drop (length (trace w)) (trace w')"

definition is_submit :: "event \<Rightarrow> bool" where
  "is_submit e =
     (case e of AsyncPwrite t f off \<Rightarrow> True | AsyncPread t f off \<Rightarrow> True | _ \<Rightarrow> False)"

text \<open>
  Modelled from the spec: the engine behind the handle is not in the repository. By the
  spec, a submit adds one outstanding operation and \<^verbatim>\<open>wait()\<close> returns once all the
  operations submitted so far have completed. \<open>in_flight n es\<close> is the number of
  outstanding operations after the calls \<open>es\<close>, starting from \<open>n\<close>.
\<close>

fun in_flight :: "nat \<Rightarrow> event list \<Rightarrow> nat" where
  "in_flight n [] = n"
| "in_flight n (e # es) =
     in_flight (if is_submit e then Suc n else if e = Wait then 0 else n) es"

text \<open>The world in which a function ends, whether it returns or raises.\<close>

definition outcome_world :: "('s \<Rightarrow> world) \<Rightarrow> 's outcome \<Rightarrow> world" where
  "outcome_world proj r = (case r of Inl (e, w) \<Rightarrow> w | Inr st \<Rightarrow> proj st)"

definition is_unlink :: "event \<Rightarrow> bool" where
  "is_unlink e = (case e of Unlink f \<Rightarrow> True | _ \<Rightarrow> False)"

text \<open>The calls that touch a test file: the submitted writes and reads, and the deletions.\<close>

definition file_ops :: "event list \<Rightarrow> event list" where
  "file_ops es = filter (\<lambda>e. is_submit e \<or> is_unlink e) es"

text \<open>The path of the \<open>i\<close>-th test file of a size, as line 112 builds it.\<close>

definition test_file :: "path \<Rightarrow> int \<Rightarrow> nat \<Rightarrow> path" where
  "test_file d sz i = d @ [test_file_name sz (int i)]"

text \<open>
  The calls of the \<open>i\<close>-th pass of the write loop and of the read loop, when the clock
  had been read \<open>t\<close> times before the loop began, and the difference of the two readings
  of that pass.
\<close>

definition write_calls :: "system \<Rightarrow> nat \<Rightarrow> path \<Rightarrow> int \<Rightarrow> nat \<Rightarrow> event list" where
  "write_calls sys t d sz i =
     [TorchEmpty sz, PerfCounter (perf_clock sys (t + 2 * i)),
      AsyncPwrite sz (test_file d sz i) 0, Wait,
      PerfCounter (perf_clock sys (t + 2 * i + 1))]"

definition read_calls :: "system \<Rightarrow> nat \<Rightarrow> int \<Rightarrow> path list \<Rightarrow> nat \<Rightarrow> event list" where
  "read_calls sys t sz test_files i =
     [TorchEmpty sz, PerfCounter (perf_clock sys (t + 2 * i)),
      AsyncPread sz (test_files ! i) 0, Wait,
      PerfCounter (perf_clock sys (t + 2 * i + 1))]"

definition elapsed :: "system \<Rightarrow> nat \<Rightarrow> nat \<Rightarrow> real" where
  "elapsed sys t i = perf_clock sys (t + 2 * i + 1) - perf_clock sys (t + 2 * i)"

text \<open>The writes, the reads and the deletions of one size, in this order.\<close>

definition size_file_ops :: "path \<Rightarrow> nat \<Rightarrow> int \<Rightarrow> event list" where
  "size_file_ops d n sz =
     map (\<lambda>i. AsyncPwrite sz (test_file d sz i) 0) [0..<n]
     @ map (\<lambda>i. AsyncPread sz (test_file d sz i) 0) [0..<n]
     @ map (\<lambda>i. Unlink (test_file d sz i)) [0..<n]"

text \<open>
  A list of calls in which every submit is followed at once by \<^verbatim>\<open>wait()\<close>, and two
  worlds of which the second extends the calls of the first by such a list.
\<close>

fun paired :: "event list \<Rightarrow> bool" where
  "paired [] = True"
| "paired [e] = (\<not> is_submit e)"
| "paired (e # e' # es) =
     (if is_submit e then e' = Wait \<and> paired es else paired (e' # es))"

definition calls_paired :: "world \<Rightarrow> world \<Rightarrow> bool" where
  "calls_paired w w' = (\<exists>new. trace w' = trace w @ new \<and> paired new)"

text \<open>The world of a loop that carries two lists and the world.\<close>

abbreviation world3 :: "path list \<times> real list \<times> world \<Rightarrow> world" where
  "world3 \<equiv> (\<lambda>st. snd (snd st))"

text \<open>A positive power of two, by repeated halving.\<close>

fun power_of_two :: "nat \<Rightarrow> bool" where
  "power_of_two n = (if n \<le> 1 then n = 1 else even n \<and> power_of_two (n div 2))"

definition positive_power_of_two :: "int \<Rightarrow> bool" where
  "positive_power_of_two i = (0 < i \<and> power_of_two (nat i))"

section \<open>Concrete inputs\<close>

text \<open>Builtins that read unsigned decimal numerals and reject everything else.\<close>

fun nat_of_digits :: "nat \<Rightarrow> string \<Rightarrow> nat" where
  "nat_of_digits acc [] = acc"
| "nat_of_digits acc (c # cs) = nat_of_digits (10 * acc + (of_char c - 48)) cs"

definition is_digit :: "char \<Rightarrow> bool" where
  "is_digit c = (48 \<le> (of_char c :: nat) \<and> (of_char c :: nat) \<le> 57)"

definition decimal_builtins :: builtins where
  "decimal_builtins =
     \<lparr>py_float =
        (\<lambda>s. if s \<noteq> [] \<and> list_all is_digit s then Inr (Finite (real (nat_of_digits 0 s)))
              else Inl (ValueError (''could not convert string to float: '' @ s))),
      py_int =
        (\<lambda>s. if s \<noteq> [] \<and> list_all is_digit s then Inr (int (nat_of_digits 0 s))
              else Inl (ValueError (''invalid literal for int() with base 10: '' @ s)))\<rparr>"

text \<open>
  What numpy, scipy and the arithmetic give on a sample whose values are all equal and
  exactly representable: the mean, the median and the percentiles are the common value,
  the standard deviation is 0, scipy's interval of scale 0 is \<^verbatim>\<open>(nan, nan)\<close>, and the
  quotients of the bandwidth are exact. It is used on such samples only.
\<close>

definition simple_lib :: stats_lib where
  "simple_lib =
     \<lparr>np_mean = (\<lambda>xs. hd xs),
      np_median = (\<lambda>xs. hd xs),
      np_std = (\<lambda>xs. Finite 0),
      np_sqrt = (\<lambda>n. Finite (sqrt (real_of_int n))),
      np_percentile = (\<lambda>xs q. hd xs),
      t_interval = (\<lambda>c d l s. (NaN, NaN)),
      to_double = (\<lambda>r. r),
      fdiv = (\<lambda>x y. case (x, y) of (Finite a, Finite b) \<Rightarrow> Finite (a / b) | _ \<Rightarrow> NaN)\<rparr>"

text \<open>
  A system whose clock advances by one second at every reading and where nothing
  fails; a handle of queue depth 4 and one of queue depth 0; a world where only
  \<^verbatim>\<open>/mnt\<close> exists.
\<close>

definition steady_system :: system where
  "steady_system =
     \<lparr>perf_clock = (\<lambda>k. real k), load_fault = None,
      handle_fault = (\<lambda>bs qd ss oe th. None), rmtree_fault = None,
      writable = (\<lambda>p. True)\<rparr>"

definition some_handle :: aio_handle where
  "some_handle =
     \<lparr>block_size = 1024, queue_depth = 4, single_submit = False, overlap_events = True,
      num_threads = 1\<rparr>"

definition zero_depth_handle :: aio_handle where
  "zero_depth_handle =
     \<lparr>block_size = 1024, queue_depth = 0, single_submit = False, overlap_events = True,
      num_threads = 1\<rparr>"

definition mnt_world :: world where
  "mnt_world = \<lparr>ticks = 0, trace = [], fs = {[''mnt'']}\<rparr>"

text \<open>
  A command line, a world where the target directory exists and holds a file, a system
  whose handle constructor raises, and one where the deletion of the tree is refused.
\<close>

definition some_args :: args where
  "some_args =
     \<lparr>arg_nvme_path = [''mnt'', ''t''], arg_sizes = [''4''], arg_iterations = 2,
      arg_threads = 1, arg_queue_depth = 4, arg_block_size = ''1024''\<rparr>"


definition no_handle_system :: system where
  "no_handle_system =
     steady_system\<lparr>handle_fault :=
       (\<lambda>bs qd ss oe th. Some (OtherException ''TypeError'' ''incompatible constructor arguments''))\<rparr>"


section \<open>Statistics and size parsing\<close>

lemma fpos_not_zero: "fpos lat \<Longrightarrow> lat \<noteq> Finite 0"
  by (auto simp add: fpos_def)

lemma bandwidth_converts:
  assumes "converts_to_float n" and "fpos lat"
  shows "bandwidth lib n lat =
     Inr (fdiv lib (fdiv lib (Finite (to_double lib (real_of_int n))) lat) (Finite 1000000))"
  using assms fpos_not_zero [OF assms(2)]
  by (simp add: bandwidth_def float_of_int_def py_truediv_def)

lemma bandwidth_overflow:
  "\<not> converts_to_float n \<Longrightarrow>
     bandwidth lib n lat = Inl (OverflowError ''int too large to convert to float'')"
  by (simp add: bandwidth_def float_of_int_def)

lemma bandwidths_of_converts:
  assumes "converts_to_float n"
  shows "bandwidths_of lib n lats =
     Inr (map (\<lambda>lat. fdiv lib (fdiv lib (Finite (to_double lib (real_of_int n))) lat)
                        (Finite 1000000))
            (filter fpos lats))"
  by (induction lats) (simp_all add: bandwidth_converts [OF assms])

lemma bandwidths_of_overflow:
  assumes "\<not> converts_to_float n"
  shows "bandwidths_of lib n lats =
     (if \<exists>lat\<in>set lats. fpos lat
      then Inl (OverflowError ''int too large to convert to float'') else Inr [])"
  by (induction lats) (simp_all add: bandwidth_overflow [OF assms])

lemma filter_fpos_id: "(\<forall>lat\<in>set lats. fpos lat) \<Longrightarrow> filter fpos lats = lats"
  by (induction lats) auto

lemma length_filter_eq_iff: "length (filter P xs) = length xs \<longleftrightarrow> (\<forall>x\<in>set xs. P x)"
  by (metis filter_id_conv length_filter_less less_irrefl)

lemma calculate_statistics_ok:
  assumes "latencies \<noteq> []" and "\<forall>lat\<in>set latencies. fpos lat"
    and "converts_to_float sz"
  shows "\<exists>stats. calculate_statistics lib latencies sz = Inr stats"
  using assms(1)
  by (simp add: calculate_statistics_def Let_def bandwidths_of_converts [OF assms(3)]
      filter_fpos_id [OF assms(2)])

text \<open>
  A transfer size of \<open>2 ^ 1024\<close> does not convert to a float: on one positive latency
  \<^verbatim>\<open>calculate_statistics\<close> raises \<^verbatim>\<open>OverflowError\<close> and returns nothing.
\<close>

theorem calculate_statistics_huge_size_counterexample:
  "[Finite 1] \<noteq> [] \<and> fpos (Finite 1) \<and> (0::int) < 2 ^ 1024
   \<and> calculate_statistics simple_lib [Finite 1] (2 ^ 1024)
       = Inl (OverflowError ''int too large to convert to float'')"
  by (simp add: calculate_statistics_def Let_def bandwidth_def float_of_int_def
      converts_to_float_def fpos_def)

text \<open>
  C1, as the code has it. For a non-empty list of positive latencies and a positive
  transfer size that converts to a float (one below \<open>2 ^ 1024 - 2 ^ 970\<close>),
  \<^verbatim>\<open>calculate_statistics\<close> returns the dictionary whose \<^verbatim>\<open>latency\<close> entry holds the mean,
  the median, the standard deviation, the 95\% confidence interval (scipy's
  \<^verbatim>\<open>t.interval\<close> at level 0.95 with \<open>n - 1\<close> degrees of freedom, centred at the mean, scaled
  by the standard deviation over the square root of \<open>n\<close>) and the 50th, 90th and 99th
  percentiles of the latencies, and whose \<^verbatim>\<open>bandwidth_mb_s\<close> entry holds the same
  statistics of the bandwidths, the bandwidth of a sample being the float
  \<open>size_bytes / latency / 1e6\<close>.
\<close>

theorem calculate_statistics_returns_summaries:
  assumes "latencies \<noteq> []" and "\<forall>lat\<in>set latencies. fpos lat" and "0 < size_bytes"
    and "converts_to_float size_bytes"
  shows "calculate_statistics lib latencies size_bytes =
    (let bandwidths =
           map (\<lambda>lat. fdiv lib (fdiv lib (Finite (to_double lib (real_of_int size_bytes))) lat)
                              (Finite 1000000)) latencies;
         n = length latencies;
         level = Finite (to_double lib (95 / 100)) in
     Inr \<lparr>latency =
            \<lparr>mean = np_mean lib latencies, median = np_median lib latencies,
             std_dev = np_std lib latencies,
             confidence_interval =
               t_interval lib level (int n - 1) (np_mean lib latencies)
                 (fdiv lib (np_std lib latencies) (np_sqrt lib (int n))),
             percentiles =
               [(''50th'', np_percentile lib latencies 50),
                (''90th'', np_percentile lib latencies 90),
                (''99th'', np_percentile lib latencies 99)]\<rparr>,
          bandwidth_mb_s =
            \<lparr>mean = np_mean lib bandwidths, median = np_median lib bandwidths,
             std_dev = np_std lib bandwidths,
             confidence_interval =
               t_interval lib level (int n - 1) (np_mean lib bandwidths)
                 (fdiv lib (np_std lib bandwidths) (np_sqrt lib (int n))),
             percentiles =
               [(''50th'', np_percentile lib bandwidths 50),
                (''90th'', np_percentile lib bandwidths 90),
                (''99th'', np_percentile lib bandwidths 99)]\<rparr>\<rparr>)"
  using assms(1)
  by (simp add: calculate_statistics_def Let_def bandwidths_of_converts [OF assms(4)]
      filter_fpos_id [OF assms(2)])

text \<open>
  Two samples of 0.5 s for 1000000 bytes: the bandwidths are 2 MB/s, and the interval of
  a sample without spread is \<^verbatim>\<open>(nan, nan)\<close>.
\<close>

theorem calculate_statistics_returns_summaries_witness:
  "calculate_statistics simple_lib [Finite (1 / 2), Finite (1 / 2)] 1000000 =
     Inr \<lparr>latency =
            \<lparr>mean = Finite (1 / 2), median = Finite (1 / 2), std_dev = Finite 0,
             confidence_interval = (NaN, NaN),
             percentiles =
               [(''50th'', Finite (1 / 2)), (''90th'', Finite (1 / 2)),
                (''99th'', Finite (1 / 2))]\<rparr>,
          bandwidth_mb_s =
            \<lparr>mean = Finite 2, median = Finite 2, std_dev = Finite 0,
             confidence_interval = (NaN, NaN),
             percentiles = [(''50th'', Finite 2), (''90th'', Finite 2), (''99th'', Finite 2)]\<rparr>\<rparr>"
  using calculate_statistics_returns_summaries
    [of "[Finite (1 / 2), Finite (1 / 2)]" 1000000 simple_lib]
  by (simp add: simple_lib_def fpos_def converts_to_float_def)

text \<open>
  With a transfer size of \<open>2 ^ 1024\<close> and the latencies 1 and 0, of which the second is
  not positive, the exception is an \<^verbatim>\<open>OverflowError\<close>, not a \<^verbatim>\<open>ValueError\<close>.
\<close>

theorem calculate_statistics_mixed_sample_counterexample:
  "\<not> fpos (Finite 0)
   \<and> calculate_statistics simple_lib [Finite 1, Finite 0] (2 ^ 1024)
       = Inl (OverflowError ''int too large to convert to float'')"
  by (simp add: calculate_statistics_def Let_def bandwidth_def float_of_int_def
      converts_to_float_def fpos_def)

text \<open>
  C8, as the code has it. For a transfer size that converts to a float,
  \<^verbatim>\<open>calculate_statistics\<close> raises \<^verbatim>\<open>ValueError\<close> exactly when the list of latencies is
  empty or holds a latency that is not strictly positive, raises nothing else, and
  returns on a non-empty list of strictly positive latencies. For a transfer size that
  does not convert, it raises \<^verbatim>\<open>OverflowError\<close> exactly when some latency is strictly
  positive, \<^verbatim>\<open>ValueError\<close> exactly when none is, and never returns.
\<close>

theorem calculate_statistics_raises_iff:
  "(converts_to_float size_bytes \<longrightarrow>
      ((\<exists>msg. calculate_statistics lib latencies size_bytes = Inl (ValueError msg))
         = (latencies = [] \<or> (\<exists>lat\<in>set latencies. \<not> fpos lat)))
      \<and> ((\<exists>e. calculate_statistics lib latencies size_bytes = Inl e)
         = (\<exists>msg. calculate_statistics lib latencies size_bytes = Inl (ValueError msg)))
      \<and> (latencies \<noteq> [] \<and> (\<forall>lat\<in>set latencies. fpos lat)
           \<longrightarrow> (\<exists>stats. calculate_statistics lib latencies size_bytes = Inr stats)))
   \<and> (\<not> converts_to_float size_bytes \<longrightarrow>
      (calculate_statistics lib latencies size_bytes
           = Inl (OverflowError ''int too large to convert to float''))
         = (\<exists>lat\<in>set latencies. fpos lat)
      \<and> ((\<exists>msg. calculate_statistics lib latencies size_bytes = Inl (ValueError msg))
         = (\<forall>lat\<in>set latencies. \<not> fpos lat))
      \<and> (\<forall>stats. calculate_statistics lib latencies size_bytes \<noteq> Inr stats))"
proof (intro conjI impI)
  assume c: "converts_to_float size_bytes"
  show "(\<exists>msg. calculate_statistics lib latencies size_bytes = Inl (ValueError msg))
         = (latencies = [] \<or> (\<exists>lat\<in>set latencies. \<not> fpos lat))"
    by (auto simp add: calculate_statistics_def Let_def bandwidths_of_converts [OF c]
        length_filter_eq_iff)
  show "(\<exists>e. calculate_statistics lib latencies size_bytes = Inl e)
         = (\<exists>msg. calculate_statistics lib latencies size_bytes = Inl (ValueError msg))"
    by (auto simp add: calculate_statistics_def Let_def bandwidths_of_converts [OF c])
  show "\<exists>stats. calculate_statistics lib latencies size_bytes = Inr stats"
    if "latencies \<noteq> [] \<and> (\<forall>lat\<in>set latencies. fpos lat)"
    using that calculate_statistics_ok [OF _ _ c] by blast
next
  assume c: "\<not> converts_to_float size_bytes"
  show "(calculate_statistics lib latencies size_bytes
           = Inl (OverflowError ''int too large to convert to float''))
         = (\<exists>lat\<in>set latencies. fpos lat)"
    by (auto simp add: calculate_statistics_def Let_def bandwidths_of_overflow [OF c])
  show "(\<exists>msg. calculate_statistics lib latencies size_bytes = Inl (ValueError msg))
         = (\<forall>lat\<in>set latencies. \<not> fpos lat)"
    by (auto simp add: calculate_statistics_def Let_def bandwidths_of_overflow [OF c])
  show "\<forall>stats. calculate_statistics lib latencies size_bytes \<noteq> Inr stats"
    by (auto simp add: calculate_statistics_def Let_def bandwidths_of_overflow [OF c])
qed

theorem calculate_statistics_raises_iff_witness:
  "(\<exists>stats. calculate_statistics simple_lib [Finite (1 / 2), Finite (1 / 2)] 1000000
              = Inr stats)
   \<and> (\<exists>msg. calculate_statistics simple_lib [Finite (1 / 2), Finite 0] 1000000
              = Inl (ValueError msg))
   \<and> (\<exists>msg. calculate_statistics simple_lib [] 1000000 = Inl (ValueError msg))
   \<and> (\<exists>msg. calculate_statistics simple_lib [Finite 0, NaN] (2 ^ 1024)
              = Inl (ValueError msg))"
  using calculate_statistics_raises_iff
      [of 1000000 simple_lib "[Finite (1 / 2), Finite (1 / 2)]"]
    calculate_statistics_raises_iff [of 1000000 simple_lib "[Finite (1 / 2), Finite 0]"]
    calculate_statistics_raises_iff [of 1000000 simple_lib "[]"]
    calculate_statistics_raises_iff [of "2 ^ 1024" simple_lib "[Finite 0, NaN]"]
  by (simp add: fpos_def converts_to_float_def)

lemma fmul_finite: "\<bar>r * k\<bar> < 2 ^ 1024 \<Longrightarrow> fmul (Finite r) k = Finite (r * k)"
  by (auto simp add: fmul_def abs_less_iff)

lemma endswith_snoc: "endswith (p @ [c]) d = (c = d)"
  by (simp add: endswith_def)

text \<open>
  C9. Let \<open>u\<close> be the input uppercased and stripped. If \<open>u\<close> is a prefix followed by
  \<^verbatim>\<open>K\<close>, \<^verbatim>\<open>M\<close> or \<^verbatim>\<open>G\<close>, and \<^verbatim>\<open>float\<close> reads the prefix as the finite number \<open>r\<close>,
  \<^verbatim>\<open>parse_size\<close> returns the integer part of \<open>r\<close> times 1024, 1024 * 1024 or
  1024 * 1024 * 1024 (as long as the product is in the range of the doubles); if \<open>u\<close>
  ends in none of the three letters, \<^verbatim>\<open>parse_size\<close> returns what \<^verbatim>\<open>int\<close> reads in \<open>u\<close>.
\<close>

theorem parse_size_suffixes:
  assumes "list_all is_ascii s"
  shows "(strip (upper s) = p @ ''K'' \<and> py_float b p = Inr (Finite r)
            \<and> \<bar>r * 1024\<bar> < 2 ^ 1024
            \<longrightarrow> parse_size b s = Inr (trunc (r * 1024)))
       \<and> (strip (upper s) = p @ ''M'' \<and> py_float b p = Inr (Finite r)
            \<and> \<bar>r * 1024 * 1024\<bar> < 2 ^ 1024
            \<longrightarrow> parse_size b s = Inr (trunc (r * 1024 * 1024)))
       \<and> (strip (upper s) = p @ ''G'' \<and> py_float b p = Inr (Finite r)
            \<and> \<bar>r * 1024 * 1024 * 1024\<bar> < 2 ^ 1024
            \<longrightarrow> parse_size b s = Inr (trunc (r * 1024 * 1024 * 1024)))
       \<and> (\<not> endswith (strip (upper s)) CHR ''K'' \<and> \<not> endswith (strip (upper s)) CHR ''M''
            \<and> \<not> endswith (strip (upper s)) CHR ''G''
            \<longrightarrow> parse_size b s = py_int b (strip (upper s)))"
proof (intro conjI impI)
  assume a: "strip (upper s) = p @ ''K'' \<and> py_float b p = Inr (Finite r)
            \<and> \<bar>r * 1024\<bar> < 2 ^ 1024"
  then show "parse_size b s = Inr (trunc (r * 1024))"
    by (simp add: parse_size_def float_then_def fmul_finite int_of_float_def endswith_snoc)
next
  assume a: "strip (upper s) = p @ ''M'' \<and> py_float b p = Inr (Finite r)
            \<and> \<bar>r * 1024 * 1024\<bar> < 2 ^ 1024"
  then have "\<bar>r * 1024\<bar> < 2 ^ 1024" by (simp add: abs_mult)
  with a show "parse_size b s = Inr (trunc (r * 1024 * 1024))"
    by (simp add: parse_size_def float_then_def fmul_finite int_of_float_def endswith_snoc)
next
  assume a: "strip (upper s) = p @ ''G'' \<and> py_float b p = Inr (Finite r)
            \<and> \<bar>r * 1024 * 1024 * 1024\<bar> < 2 ^ 1024"
  then have "\<bar>r * 1024 * 1024\<bar> < 2 ^ 1024" by (simp add: abs_mult)
  moreover from this have "\<bar>r * 1024\<bar> < 2 ^ 1024" by (simp add: abs_mult)
  ultimately show "parse_size b s = Inr (trunc (r * 1024 * 1024 * 1024))"
    using a
    by (simp add: parse_size_def float_then_def fmul_finite int_of_float_def endswith_snoc)
next
  assume "\<not> endswith (strip (upper s)) CHR ''K'' \<and> \<not> endswith (strip (upper s)) CHR ''M''
            \<and> \<not> endswith (strip (upper s)) CHR ''G''"
  then show "parse_size b s = py_int b (strip (upper s))"
    by (simp add: parse_size_def)
qed

lemma strip_upper_2m: "strip (upper '' 2m '') = ''2'' @ ''M''"
  by code_simp

lemma strip_upper_4096: "strip (upper ''4096'') = ''4096''"
  by code_simp

lemma decimal_float_2: "py_float decimal_builtins ''2'' = Inr (Finite 2)"
  by (simp add: decimal_builtins_def is_digit_def)

lemma decimal_int_4096: "py_int decimal_builtins ''4096'' = Inr 4096"
  by (simp add: decimal_builtins_def is_digit_def)

text \<open>The example of the docstring, \<^verbatim>\<open>2M\<close>, in lower case and with blanks around it.\<close>

theorem parse_size_suffixes_witness:
  "parse_size decimal_builtins '' 2m '' = Inr 2097152
   \<and> parse_size decimal_builtins ''4096'' = Inr 4096"
proof -
  have "parse_size decimal_builtins '' 2m '' = Inr (trunc (2 * 1024 * 1024))"
    using parse_size_suffixes [of "'' 2m ''" "''2''" decimal_builtins 2]
      strip_upper_2m decimal_float_2
    by (simp add: is_ascii_def)
  moreover have "parse_size decimal_builtins ''4096''
      = py_int decimal_builtins (strip (upper ''4096''))"
    using parse_size_suffixes [of "''4096''" "[]" decimal_builtins 0] strip_upper_4096
    by (simp add: is_ascii_def endswith_def)
  ultimately show ?thesis
    by (simp add: trunc_def strip_upper_4096 decimal_int_4096)
qed

section \<open>The loops of the benchmark when nothing raises\<close>

lemma for_each_append:
  "for_each body (xs @ ys) st =
     (case for_each body xs st of Inl err \<Rightarrow> Inl err | Inr st' \<Rightarrow> for_each body ys st')"
  by (induction xs arbitrary: st) (auto split: sum.splits)

lemma write_iteration_ok:
  assumes "0 \<le> sz"
  shows "write_iteration sys h d sz i (files, lats, w) =
     Inr (files @ [test_file d sz i],
          lats @ [perf_clock sys (Suc (ticks w)) - perf_clock sys (ticks w)],
          w\<lparr>ticks := ticks w + 2,
            trace := trace w @
              [TorchEmpty sz, PerfCounter (perf_clock sys (ticks w)),
               AsyncPwrite sz (test_file d sz i) 0, Wait,
               PerfCounter (perf_clock sys (Suc (ticks w)))],
            fs := insert (test_file d sz i) (fs w)\<rparr>)"
  using assms
  by (simp add: write_iteration_def torch_empty_def perf_counter_def async_pwrite_def
      wait_def log_event_def Let_def test_file_def)

lemma write_loop:
  assumes "0 \<le> sz"
  shows "for_each (write_iteration sys h d sz) [0..<n] ([], [], w) =
     Inr (map (test_file d sz) [0..<n], map (elapsed sys (ticks w)) [0..<n],
          w\<lparr>ticks := ticks w + 2 * n,
            trace := trace w @ concat (map (write_calls sys (ticks w) d sz) [0..<n]),
            fs := fs w \<union> set (map (test_file d sz) [0..<n])\<rparr>)"
proof (induction n)
  case 0
  show ?case by simp
next
  case (Suc n)
  show ?case
    using assms
    by (simp add: for_each_append Suc write_iteration_ok elapsed_def write_calls_def
        test_file_def)
qed

lemma read_iteration_ok:
  assumes "0 \<le> sz" and "i < length files"
  shows "read_iteration sys h sz i (files, lats, w) =
     Inr (files,
          lats @ [perf_clock sys (Suc (ticks w)) - perf_clock sys (ticks w)],
          w\<lparr>ticks := ticks w + 2,
            trace := trace w @
              [TorchEmpty sz, PerfCounter (perf_clock sys (ticks w)),
               AsyncPread sz (files ! i) 0, Wait,
               PerfCounter (perf_clock sys (Suc (ticks w)))]\<rparr>)"
  using assms
  by (simp add: read_iteration_def torch_empty_def perf_counter_def async_pread_def
      wait_def log_event_def Let_def)

lemma read_loop:
  assumes "0 \<le> sz" and "n \<le> length files"
  shows "for_each (read_iteration sys h sz) [0..<n] (files, [], w) =
     Inr (files, map (elapsed sys (ticks w)) [0..<n],
          w\<lparr>ticks := ticks w + 2 * n,
            trace := trace w @ concat (map (read_calls sys (ticks w) sz files) [0..<n])\<rparr>)"
  using assms(2)
proof (induction n)
  case 0
  show ?case by simp
next
  case (Suc n)
  then show ?case
    using assms(1)
    by (simp add: for_each_append read_iteration_ok elapsed_def read_calls_def)
qed

lemma unlink_missing_ok:
  "unlink True f w = Inr (w\<lparr>trace := trace w @ [Unlink f], fs := fs w - {f}\<rparr>)"
  by (simp add: unlink_def log_event_def Let_def)

lemma cleanup_ok:
  "cleanup files w = Inr (w\<lparr>trace := trace w @ map Unlink files, fs := fs w - set files\<rparr>)"
  unfolding cleanup_def
proof (induction files arbitrary: w)
  case Nil
  show ?case by simp
next
  case (Cons f files)
  have d: "fs w - {f} - set files = fs w - insert f (set files)" by blast
  have "for_each (unlink True) (f # files) w
      = for_each (unlink True) files (w\<lparr>trace := trace w @ [Unlink f], fs := fs w - {f}\<rparr>)"
    by (subst for_each.simps, subst unlink_missing_ok) (simp only: sum.case)
  also have "\<dots> = Inr (w\<lparr>trace := trace w @ map Unlink (f # files),
                         fs := fs w - set (f # files)\<rparr>)"
    by (subst Cons) (simp add: d)
  finally show ?case .
qed

lemma elapsed_positive:
  assumes "\<forall>k. perf_clock sys k < perf_clock sys (Suc k)"
  shows "0 < elapsed sys t i"
  using assms by (simp add: elapsed_def)

lemma benchmark_size_ok:
  assumes "0 < iterations" and "0 \<le> sz"
    and "\<forall>k. perf_clock sys k < perf_clock sys (Suc k)"
    and "converts_to_float sz"
  shows "benchmark_size sys lib h iterations d sz w =
     Inr (w\<lparr>ticks := ticks w + 4 * nat iterations,
            trace := trace w
              @ concat (map (write_calls sys (ticks w) d sz) [0..<nat iterations])
              @ concat (map (read_calls sys (ticks w + 2 * nat iterations) sz
                              (map (test_file d sz) [0..<nat iterations]))
                          [0..<nat iterations])
              @ map Unlink (map (test_file d sz) [0..<nat iterations]),
            fs := fs w - set (map (test_file d sz) [0..<nat iterations])\<rparr>)"
proof -
  define n where "n = nat iterations"
  have n: "0 < n" using assms(1) by (simp add: n_def)
  have pos: "\<forall>lat\<in>set (map (Finite \<circ> elapsed sys t) [0..<n]). fpos lat" for t
    using elapsed_positive [OF assms(3)] by (simp add: fpos_def)
  have ne: "map (Finite \<circ> elapsed sys t) [0..<n] \<noteq> []" for t using n by simp
  obtain ws where ws: "calculate_statistics lib
      (map (Finite \<circ> elapsed sys (ticks w)) [0..<n]) sz = Inr ws"
    using calculate_statistics_ok [OF ne pos assms(4)] by blast
  obtain rs where rs: "calculate_statistics lib
      (map (Finite \<circ> elapsed sys (ticks w + 2 * n)) [0..<n]) sz = Inr rs"
    using calculate_statistics_ok [OF ne pos assms(4)] by blast
  have "(fs w \<union> set (map (test_file d sz) [0..<n])) - set (map (test_file d sz) [0..<n])
      = fs w - set (map (test_file d sz) [0..<n])" by blast
  then show ?thesis
    unfolding n_def [symmetric]
    by (simp add: benchmark_size_def write_phase_def read_phase_def n_def [symmetric]
        write_loop [OF assms(2)] read_loop [OF assms(2)] ws rs cleanup_ok)
qed

section \<open>Submits followed at once by wait\<close>

lemma paired_append: "paired xs \<Longrightarrow> paired ys \<Longrightarrow> paired (xs @ ys)"
proof (induction xs rule: paired.induct)
  case 1
  then show ?case by simp
next
  case (2 e)
  then show ?case by (cases ys) auto
next
  case (3 e e' es)
  then show ?case by (auto split: if_splits)
qed

lemma paired_adjacent:
  "paired es \<Longrightarrow> k < length es \<Longrightarrow> is_submit (es ! k) \<Longrightarrow>
     Suc k < length es \<and> es ! Suc k = Wait"
proof (induction es arbitrary: k rule: paired.induct)
  case 1
  then show ?case by simp
next
  case (2 e)
  then show ?case by simp
next
  case (3 e e' es)
  note prems = \<open>paired (e # e' # es)\<close> \<open>k < length (e # e' # es)\<close>
    \<open>is_submit ((e # e' # es) ! k)\<close>
  show ?case
  proof (cases "is_submit e")
    case True
    with prems have w: "e' = Wait" and p: "paired es" by auto
    show ?thesis
    proof (cases k)
      case 0
      then show ?thesis using w by simp
    next
      case (Suc j)
      show ?thesis
      proof (cases j)
        case 0
        with Suc prems(3) w show ?thesis by (simp add: is_submit_def)
      next
        case (Suc i)
        with \<open>k = Suc j\<close> prems(2,3) have "i < length es" "is_submit (es ! i)" by auto
        from 3(1) [OF True p this] show ?thesis using Suc \<open>k = Suc j\<close> by simp
      qed
    qed
  next
    case False
    with prems have p: "paired (e' # es)" by simp
    show ?thesis
    proof (cases k)
      case 0
      with prems(3) False show ?thesis by simp
    next
      case (Suc j)
      with prems(2,3) have "j < length (e' # es)" "is_submit ((e' # es) ! j)" by auto
      from 3(2) [OF False p this] show ?thesis using Suc by simp
    qed
  qed
qed

lemma in_flight_skip: "\<not> is_submit e \<Longrightarrow> in_flight 0 (e # es) = in_flight 0 es"
  by simp

lemma in_flight_submit_wait:
  "is_submit e \<Longrightarrow> in_flight 0 (e # Wait # es) = in_flight 0 es"
  by (simp add: is_submit_def)

lemma in_flight_submit_only: "is_submit e \<Longrightarrow> in_flight 0 [e] = 1"
  by simp

lemma paired_in_flight:
  "paired es \<Longrightarrow> in_flight 0 (take k es) \<le> 1 \<and> in_flight 0 es = 0"
proof (induction es arbitrary: k rule: paired.induct)
  case 1
  then show ?case by simp
next
  case (2 e)
  then show ?case by (cases k) auto
next
  case (3 e e' es)
  note prem = \<open>paired (e # e' # es)\<close>
  show ?case
  proof (cases "is_submit e")
    case True
    with prem have w: "e' = Wait" and p: "paired es" by auto
    have whole: "in_flight 0 (e # e' # es) = 0"
      using 3(1) [OF True p, of 0] by (simp only: w in_flight_submit_wait [OF True])
    have part: "in_flight 0 (take k (e # e' # es)) \<le> 1"
    proof (cases k)
      case 0
      then show ?thesis by simp
    next
      case (Suc j)
      show ?thesis
      proof (cases j)
        case 0
        then show ?thesis using \<open>k = Suc j\<close> True by simp
      next
        case (Suc i)
        have "take k (e # e' # es) = e # Wait # take i es"
          using Suc \<open>k = Suc j\<close> w by simp
        then show ?thesis
          using 3(1) [OF True p, of i] by (simp only: in_flight_submit_wait [OF True])
      qed
    qed
    from part whole show ?thesis by simp
  next
    case False
    with prem have p: "paired (e' # es)" by simp
    have whole: "in_flight 0 (e # e' # es) = 0"
      using 3(2) [OF False p, of 0] by (simp only: in_flight_skip [OF False])
    have part: "in_flight 0 (take k (e # e' # es)) \<le> 1"
    proof (cases k)
      case 0
      then show ?thesis by simp
    next
      case (Suc j)
      have "take k (e # e' # es) = e # take j (e' # es)"
        using Suc by simp
      then show ?thesis
        using 3(2) [OF False p, of j] by (simp only: in_flight_skip [OF False])
    qed
    from part whole show ?thesis by simp
  qed
qed

lemma calls_paired_refl: "calls_paired w w"
  by (simp add: calls_paired_def)

lemma calls_paired_trans: "calls_paired a b \<Longrightarrow> calls_paired b c \<Longrightarrow> calls_paired a c"
  by (auto simp add: calls_paired_def intro: paired_append)

lemma for_each_calls_paired:
  assumes "\<And>x st. calls_paired (proj st) (outcome_world proj (body x st))"
  shows "calls_paired (proj st) (outcome_world proj (for_each body xs st))"
proof (induction xs arbitrary: st)
  case Nil
  show ?case by (simp add: outcome_world_def calls_paired_refl)
next
  case (Cons x xs)
  show ?case
  proof (cases "body x st")
    case (Inl err)
    with assms [of st x] show ?thesis by simp
  next
    case (Inr st')
    with assms [of st x] have "calls_paired (proj st) (proj st')"
      by (simp add: outcome_world_def)
    from calls_paired_trans [OF this Cons [of st']] Inr show ?thesis by simp
  qed
qed

lemma paired_single: "\<not> is_submit e \<Longrightarrow> paired [e]"
  by simp

lemma paired_skip: "\<not> is_submit e \<Longrightarrow> paired (e # es) = paired es"
  by (cases es) simp_all

lemma outcome_world_self: "outcome_world (\<lambda>w. w) r = world_of r"
  by (simp add: outcome_world_def world_of_def)

lemma calls_paired_step:
  "trace w' = trace w @ new \<Longrightarrow> paired new \<Longrightarrow> calls_paired w w'"
  by (auto simp add: calls_paired_def)

lemma write_iteration_paired:
  "calls_paired (world3 st) (outcome_world world3 (write_iteration sys h d sz i st))"
proof (cases st)
  case (fields files lats w)
  show ?thesis
  proof (cases "0 \<le> sz")
    case True
    have "paired [TorchEmpty sz, PerfCounter a, AsyncPwrite sz f 0, Wait, PerfCounter b]"
      for a f b by (simp add: is_submit_def)
    then show ?thesis
      using True fields
      by (auto simp add: write_iteration_ok outcome_world_def is_submit_def intro!: calls_paired_step)
  next
    case False
    then show ?thesis
      using fields
      by (auto simp add: write_iteration_def torch_empty_def log_event_def outcome_world_def
          is_submit_def Let_def intro!: calls_paired_step)
  qed
qed

lemma read_iteration_paired:
  "calls_paired (world3 st) (outcome_world world3 (read_iteration sys h sz i st))"
proof (cases st)
  case (fields files lats w)
  show ?thesis
  proof (cases "0 \<le> sz \<and> i < length files")
    case True
    have "paired [TorchEmpty sz, PerfCounter a, AsyncPread sz f 0, Wait, PerfCounter b]"
      for a f b by (simp add: is_submit_def)
    then show ?thesis
      using True fields
      by (auto simp add: read_iteration_ok outcome_world_def is_submit_def intro!: calls_paired_step)
  next
    case False
    then show ?thesis
      using fields
      by (auto simp add: read_iteration_def torch_empty_def log_event_def outcome_world_def
          is_submit_def Let_def intro!: calls_paired_step)
  qed
qed

lemma write_phase_paired:
  "calls_paired w (outcome_world world3 (write_phase sys h d sz iterations w))"
  using for_each_calls_paired [of world3 "write_iteration sys h d sz" "([], [], w)",
      OF write_iteration_paired]
  by (simp add: write_phase_def)

lemma read_phase_paired:
  "calls_paired w (outcome_world world3 (read_phase sys h sz iterations files w))"
  using for_each_calls_paired [of world3 "read_iteration sys h sz" "(files, [], w)",
      OF read_iteration_paired]
  by (simp add: read_phase_def)

lemma cleanup_paired: "calls_paired w (world_of (cleanup files w))"
proof -
  have "paired (map Unlink files)"
    by (induction files) (simp_all add: paired_skip is_submit_def)
  then show ?thesis
    by (auto simp add: cleanup_ok world_of_def intro!: calls_paired_step)
qed

lemma benchmark_size_paired:
  "calls_paired w (world_of (benchmark_size sys lib h iterations d sz w))"
proof (cases "write_phase sys h d sz iterations w")
  case (Inl err)
  with write_phase_paired [of w sys h d sz iterations] show ?thesis
    by (simp add: benchmark_size_def outcome_world_def world_of_def)
next
  case (Inr st)
  obtain files wl w1 where st: "st = (files, wl, w1)" by (cases st)
  from write_phase_paired [of w sys h d sz iterations] Inr st
  have 1: "calls_paired w w1" by (simp add: outcome_world_def world_of_def)
  show ?thesis
  proof (cases "calculate_statistics lib (map Finite wl) sz")
    case (Inl e)
    with Inr st 1 show ?thesis by (simp add: benchmark_size_def outcome_world_def world_of_def)
  next
    case ws: (Inr write_stats)
    show ?thesis
    proof (cases "read_phase sys h sz iterations files w1")
      case (Inl err)
      obtain e w' where err: "err = (e, w')" by (cases err)
      with Inl read_phase_paired [of w1 sys h sz iterations files]
      have "calls_paired w1 w'" by (simp add: outcome_world_def world_of_def)
      from calls_paired_trans [OF 1 this] Inl Inr st ws err show ?thesis
        by (simp add: benchmark_size_def outcome_world_def world_of_def)
    next
      case rp: (Inr st2)
      obtain files2 rl w2 where st2: "st2 = (files2, rl, w2)" by (cases st2)
      from read_phase_paired [of w1 sys h sz iterations files] rp st2
      have "calls_paired w1 w2" by (simp add: outcome_world_def world_of_def)
      from calls_paired_trans [OF 1 this] have 2: "calls_paired w w2" .
      show ?thesis
      proof (cases "calculate_statistics lib (map Finite rl) sz")
        case (Inl e)
        with Inr st ws rp st2 2 show ?thesis
          by (simp add: benchmark_size_def outcome_world_def world_of_def)
      next
        case rs: (Inr read_stats)
        from calls_paired_trans [OF 2 cleanup_paired [of w2 files]]
        show ?thesis using Inr st ws rp st2 rs
          by (simp add: benchmark_size_def)
      qed
    qed
  qed
qed

lemma benchmark_paired:
  "\<exists>new. trace (world_of (benchmark sys lib h tensor_sizes iterations d w))
           = trace w @ Mkdir d # new \<and> paired new"
proof -
  let ?w1 = "mkdir d w"
  have "calls_paired ((\<lambda>w. w) ?w1)
          (outcome_world (\<lambda>w. w)
             (for_each (benchmark_size sys lib h iterations d) tensor_sizes ?w1))"
    by (rule for_each_calls_paired) (simp add: benchmark_size_paired outcome_world_self)
  moreover have "trace ?w1 = trace w @ [Mkdir d]"
    by (simp add: mkdir_def log_event_def)
  ultimately show ?thesis
    by (auto simp add: benchmark_def calls_paired_def Let_def outcome_world_self)
qed

lemma write_iteration_raises:
  assumes "\<not> 0 \<le> sz"
  shows "new_events v (outcome_world world3 (write_iteration sys h d sz i (files, lats, v)))
     = [TorchEmpty sz]"
  using assms
  by (simp add: write_iteration_def torch_empty_def log_event_def outcome_world_def
      new_events_def Let_def)

lemma read_iteration_raises:
  assumes "\<not> (0 \<le> sz \<and> i < length files)"
  shows "new_events v (outcome_world world3 (read_iteration sys h sz i (files, lats, v)))
     = [TorchEmpty sz]"
  using assms
  by (auto simp add: read_iteration_def torch_empty_def log_event_def outcome_world_def
      new_events_def Let_def)

text \<open>
  With a handle of queue depth 0, which \<^verbatim>\<open>main\<close> forwards unchecked, one operation is in
  flight after the first four calls of the run: the creation of the directory, the
  allocation of the tensor, the clock reading and the submit.
\<close>

theorem benchmark_zero_queue_depth_counterexample:
  "queue_depth zero_depth_handle = 0
   \<and> in_flight 0 (take 4 (new_events mnt_world
        (world_of (benchmark steady_system simple_lib zero_depth_handle [4] 2 [''mnt'', ''t'']
           mnt_world)))) = 1"
proof -
  let ?d = "[''mnt'', ''t'']"
  let ?w = "mkdir ?d mnt_world"
  have u: "[0..<nat 2] = [0, 1]" by (simp add: upt_rec)
  have c: "\<forall>k. perf_clock steady_system k < perf_clock steady_system (Suc k)"
    by (simp add: steady_system_def)
  have f: "converts_to_float 4" by (simp add: converts_to_float_def)
  have n: "(0::int) < 2" and z: "(0::int) \<le> 4" by simp_all
  note s = benchmark_size_ok [where lib = simple_lib and h = zero_depth_handle
      and d = ?d and w = ?w, OF n z c f]
  have run: "world_of (benchmark steady_system simple_lib zero_depth_handle [4] 2 ?d mnt_world)
      = ?w\<lparr>ticks := ticks ?w + 4 * nat 2,
            trace := trace ?w
              @ concat (map (write_calls steady_system (ticks ?w) ?d 4) [0..<nat 2])
              @ concat (map (read_calls steady_system (ticks ?w + 2 * nat 2) 4
                              (map (test_file ?d 4) [0..<nat 2])) [0..<nat 2])
              @ map Unlink (map (test_file ?d 4) [0..<nat 2]),
            fs := fs ?w - set (map (test_file ?d 4) [0..<nat 2])\<rparr>"
    by (simp only: benchmark_def Let_def for_each.simps s sum.case world_of_def)
  have t: "trace ?w = [Mkdir ?d]"
    by (simp add: mkdir_def log_event_def mnt_world_def)
  have tm: "trace mnt_world = []"
    by (simp add: mnt_world_def)
  have "in_flight 0 (take 4 (new_events mnt_world
        (world_of (benchmark steady_system simple_lib zero_depth_handle [4] 2 ?d mnt_world))))
      = 1"
    unfolding run
    by (simp only: u) (simp add: t tm new_events_def write_calls_def is_submit_def)
  then show ?thesis by (simp add: zero_depth_handle_def)
qed

text \<open>
  C2, as the code has it. A pass of the write loop or of the read loop that gets its
  tensor makes five calls: the allocation, a clock reading, the one submit
  (\<^verbatim>\<open>async_pwrite\<close> or \<^verbatim>\<open>async_pread\<close>), \<^verbatim>\<open>wait\<close> right after it, and a clock reading; a pass
  that raises has submitted nothing. In every run of \<^verbatim>\<open>benchmark\<close>, whether it returns or
  raises, every submit is followed at once by \<^verbatim>\<open>wait\<close>. So, starting with nothing in
  flight, after any number of the calls of the run at most one operation is in flight,
  which is within the queue depth of the handle whenever that depth is at least one.
\<close>

theorem benchmark_one_in_flight:
  "(let calls = new_events w (world_of (benchmark sys lib h tensor_sizes iterations d w)) in
     (\<forall>k<length calls. is_submit (calls ! k) \<longrightarrow> Suc k < length calls \<and> calls ! Suc k = Wait)
     \<and> (\<forall>k. in_flight 0 (take k calls) \<le> 1)
     \<and> (1 \<le> queue_depth h \<longrightarrow> (\<forall>k. int (in_flight 0 (take k calls)) \<le> queue_depth h)))
   \<and> (0 \<le> sz \<longrightarrow>
        new_events v (outcome_world world3 (write_iteration sys h d sz i (files, lats, v)))
          = [TorchEmpty sz, PerfCounter (perf_clock sys (ticks v)),
             AsyncPwrite sz (test_file d sz i) 0, Wait,
             PerfCounter (perf_clock sys (Suc (ticks v)))])
   \<and> (\<not> 0 \<le> sz \<longrightarrow>
        new_events v (outcome_world world3 (write_iteration sys h d sz i (files, lats, v)))
          = [TorchEmpty sz])
   \<and> (0 \<le> sz \<and> i < length files \<longrightarrow>
        new_events v (outcome_world world3 (read_iteration sys h sz i (files, lats, v)))
          = [TorchEmpty sz, PerfCounter (perf_clock sys (ticks v)),
             AsyncPread sz (files ! i) 0, Wait,
             PerfCounter (perf_clock sys (Suc (ticks v)))])
   \<and> (\<not> (0 \<le> sz \<and> i < length files) \<longrightarrow>
        new_events v (outcome_world world3 (read_iteration sys h sz i (files, lats, v)))
          = [TorchEmpty sz])"
proof (intro conjI impI)
  obtain new where t: "trace (world_of (benchmark sys lib h tensor_sizes iterations d w))
           = trace w @ Mkdir d # new" and p: "paired new"
    using benchmark_paired by blast
  have p': "paired (Mkdir d # new)"
    using p by (cases new) (simp_all add: is_submit_def)
  have c: "new_events w (world_of (benchmark sys lib h tensor_sizes iterations d w))
      = Mkdir d # new"
    by (simp add: new_events_def t)
  have a: "\<forall>k<length (Mkdir d # new). is_submit ((Mkdir d # new) ! k) \<longrightarrow>
      Suc k < length (Mkdir d # new) \<and> (Mkdir d # new) ! Suc k = Wait"
    using paired_adjacent [OF p'] by blast
  have b: "\<forall>k. in_flight 0 (take k (Mkdir d # new)) \<le> 1"
    using paired_in_flight [OF p'] by blast
  have "1 \<le> queue_depth h \<longrightarrow>
      (\<forall>k. int (in_flight 0 (take k (Mkdir d # new))) \<le> queue_depth h)"
  proof (intro impI allI)
    fix k assume "1 \<le> queue_depth h"
    moreover have "int (in_flight 0 (take k (Mkdir d # new))) \<le> 1"
      using b by (simp del: in_flight.simps take_Suc_Cons)
    ultimately show "int (in_flight 0 (take k (Mkdir d # new))) \<le> queue_depth h"
      by linarith
  qed
  with a b
  show "let calls = new_events w (world_of (benchmark sys lib h tensor_sizes iterations d w)) in
     (\<forall>k<length calls. is_submit (calls ! k) \<longrightarrow> Suc k < length calls \<and> calls ! Suc k = Wait)
     \<and> (\<forall>k. in_flight 0 (take k calls) \<le> 1)
     \<and> (1 \<le> queue_depth h \<longrightarrow> (\<forall>k. int (in_flight 0 (take k calls)) \<le> queue_depth h))"
    unfolding Let_def c by blast
next
  assume "0 \<le> sz"
  then show "new_events v
       (outcome_world world3 (write_iteration sys h d sz i (files, lats, v)))
     = [TorchEmpty sz, PerfCounter (perf_clock sys (ticks v)),
        AsyncPwrite sz (test_file d sz i) 0, Wait,
        PerfCounter (perf_clock sys (Suc (ticks v)))]"
    by (simp add: write_iteration_ok outcome_world_def new_events_def)
next
  assume "\<not> 0 \<le> sz"
  then show "new_events v
       (outcome_world world3 (write_iteration sys h d sz i (files, lats, v)))
     = [TorchEmpty sz]"
    by (rule write_iteration_raises)
next
  assume "0 \<le> sz \<and> i < length files"
  then show "new_events v
       (outcome_world world3 (read_iteration sys h sz i (files, lats, v)))
     = [TorchEmpty sz, PerfCounter (perf_clock sys (ticks v)),
        AsyncPread sz (files ! i) 0, Wait,
        PerfCounter (perf_clock sys (Suc (ticks v)))]"
    by (simp add: read_iteration_ok outcome_world_def new_events_def)
next
  assume "\<not> (0 \<le> sz \<and> i < length files)"
  then show "new_events v
       (outcome_world world3 (read_iteration sys h sz i (files, lats, v)))
     = [TorchEmpty sz]"
    by (rule read_iteration_raises)
qed

text \<open>
  A run of two iterations on one size with a handle of queue depth 4, a pass of the
  write loop and a pass of the read loop.
\<close>

theorem benchmark_one_in_flight_witness:
  "(let calls = new_events mnt_world
       (world_of (benchmark steady_system simple_lib some_handle [4] 2 [''mnt'', ''t'']
          mnt_world)) in
     (\<forall>k<length calls. is_submit (calls ! k) \<longrightarrow> Suc k < length calls \<and> calls ! Suc k = Wait)
     \<and> (\<forall>k. in_flight 0 (take k calls) \<le> 1)
     \<and> (\<forall>k. int (in_flight 0 (take k calls)) \<le> 4))
   \<and> new_events mnt_world (outcome_world world3
        (write_iteration steady_system some_handle [''mnt'', ''t''] 4 0 ([], [], mnt_world)))
      = [TorchEmpty 4, PerfCounter 0, AsyncPwrite 4 (test_file [''mnt'', ''t''] 4 0) 0, Wait,
         PerfCounter 1]
   \<and> new_events mnt_world (outcome_world world3
        (read_iteration steady_system some_handle 4 0 ([[''a'']], [], mnt_world)))
      = [TorchEmpty 4, PerfCounter 0, AsyncPread 4 [''a''] 0, Wait, PerfCounter 1]"
  using benchmark_one_in_flight [where w = mnt_world and sys = steady_system
      and lib = simple_lib and h = some_handle and tensor_sizes = "[4]" and iterations = 2
      and d = "[''mnt'', ''t'']" and sz = 4 and i = 0 and files = "[]" and lats = "[]"
      and v = mnt_world]
    benchmark_one_in_flight [where w = mnt_world and sys = steady_system
      and lib = simple_lib and h = some_handle and tensor_sizes = "[4]" and iterations = 2
      and d = "[''mnt'', ''t'']" and sz = 4 and i = 0 and files = "[[''a'']]" and lats = "[]"
      and v = mnt_world]
  by (simp add: some_handle_def Let_def steady_system_def mnt_world_def)

section \<open>Timing, order of the operations and cleanup\<close>

lemma steady_clock: "\<forall>k. perf_clock steady_system k < perf_clock steady_system (Suc k)"
  by (simp add: steady_system_def)

text \<open>
  C3. For a size that \<^verbatim>\<open>torch.empty\<close> accepts, the write loop and the read loop return, and
  the \<open>i\<close>-th latency they record is \<open>elapsed\<close>: the clock reading taken right after
  \<^verbatim>\<open>wait()\<close> returned minus the reading taken right before the submit. The calls of a pass
  are \<open>write_calls\<close> or \<open>read_calls\<close>: the allocation of the tensor, the first reading, the
  submit, the wait and the second reading, so that nothing but the submit and the wait
  lies between the two readings.
\<close>

theorem latency_brackets_submit_and_wait:
  assumes "0 \<le> sz"
  shows "write_phase sys h d sz iterations w =
           Inr (map (test_file d sz) [0..<nat iterations],
                map (elapsed sys (ticks w)) [0..<nat iterations],
                w\<lparr>ticks := ticks w + 2 * nat iterations,
                  trace := trace w
                    @ concat (map (write_calls sys (ticks w) d sz) [0..<nat iterations]),
                  fs := fs w \<union> set (map (test_file d sz) [0..<nat iterations])\<rparr>)
       \<and> (nat iterations \<le> length test_files \<longrightarrow>
            read_phase sys h sz iterations test_files w =
              Inr (test_files,
                   map (elapsed sys (ticks w)) [0..<nat iterations],
                   w\<lparr>ticks := ticks w + 2 * nat iterations,
                     trace := trace w
                       @ concat (map (read_calls sys (ticks w) sz test_files)
                                   [0..<nat iterations])\<rparr>))"
  using assms by (simp add: write_phase_def read_phase_def write_loop read_loop)

text \<open>A clock that advances by one at each reading gives latencies of one.\<close>

theorem latency_brackets_submit_and_wait_witness:
  "write_phase steady_system some_handle [''mnt'', ''t''] 4 2 mnt_world =
     Inr ([test_file [''mnt'', ''t''] 4 0, test_file [''mnt'', ''t''] 4 1],
          [1, 1],
          mnt_world\<lparr>ticks := 4,
            trace :=
              [TorchEmpty 4, PerfCounter 0, AsyncPwrite 4 (test_file [''mnt'', ''t''] 4 0) 0,
               Wait, PerfCounter 1,
               TorchEmpty 4, PerfCounter 2, AsyncPwrite 4 (test_file [''mnt'', ''t''] 4 1) 0,
               Wait, PerfCounter 3],
            fs := {[''mnt''], test_file [''mnt'', ''t''] 4 0, test_file [''mnt'', ''t''] 4 1}\<rparr>)
   \<and> read_phase steady_system some_handle 4 2 [[''a''], [''b'']] mnt_world =
     Inr ([[''a''], [''b'']],
          [1, 1],
          mnt_world\<lparr>ticks := 4,
            trace :=
              [TorchEmpty 4, PerfCounter 0, AsyncPread 4 [''a''] 0, Wait, PerfCounter 1,
               TorchEmpty 4, PerfCounter 2, AsyncPread 4 [''b''] 0, Wait, PerfCounter 3]\<rparr>)"
proof -
  have u: "[0..<nat 2] = [0, 1]" by (simp add: upt_rec)
  show ?thesis
    using latency_brackets_submit_and_wait [where sz = 4 and sys = steady_system
        and h = some_handle and d = "[''mnt'', ''t'']" and iterations = 2 and w = mnt_world
        and test_files = "[[''a''], [''b'']]"]
    by (simp only: u) (simp add: elapsed_def write_calls_def read_calls_def steady_system_def mnt_world_def insert_commute)
qed

lemma file_ops_append: "file_ops (xs @ ys) = file_ops xs @ file_ops ys"
  by (simp add: file_ops_def)

lemma file_ops_write_calls:
  "file_ops (concat (map (write_calls sys t d sz) [0..<n]))
     = map (\<lambda>i. AsyncPwrite sz (test_file d sz i) 0) [0..<n]"
  by (induction n)
     (simp_all add: file_ops_def write_calls_def is_submit_def is_unlink_def)

lemma file_ops_read_calls:
  "file_ops (concat (map (read_calls sys t sz files) [0..<n]))
     = map (\<lambda>i. AsyncPread sz (files ! i) 0) [0..<n]"
  by (induction n)
     (simp_all add: file_ops_def read_calls_def is_submit_def is_unlink_def)

lemma file_ops_unlinks: "file_ops (map Unlink files) = map Unlink files"
  by (induction files) (simp_all add: file_ops_def is_unlink_def)

lemma file_ops_size:
  "file_ops (concat (map (write_calls sys t d sz) [0..<n])
       @ concat (map (read_calls sys t' sz (map (test_file d sz) [0..<n])) [0..<n])
       @ map Unlink (map (test_file d sz) [0..<n]))
     = size_file_ops d n sz"
proof -
  have "map (\<lambda>i. AsyncPread sz (map (test_file d sz) [0..<n] ! i) 0) [0..<n]
      = map (\<lambda>i. AsyncPread sz (test_file d sz i) 0) [0..<n]"
    by (rule map_cong) simp_all
  moreover have "file_ops (map Unlink (map (test_file d sz) [0..<n]))
      = map (\<lambda>i. Unlink (test_file d sz i)) [0..<n]"
    by (simp only: file_ops_unlinks) (simp add: comp_def)
  ultimately show ?thesis
    unfolding size_file_ops_def
    by (simp only: file_ops_append file_ops_write_calls file_ops_read_calls)
qed

lemma sizes_loop_ok:
  assumes "0 < iterations"
    and "\<forall>sz\<in>set tensor_sizes. 0 \<le> sz \<and> converts_to_float sz"
    and "\<forall>k. perf_clock sys k < perf_clock sys (Suc k)"
  shows "\<exists>w' new. for_each (benchmark_size sys lib h iterations d) tensor_sizes w = Inr w'
       \<and> trace w' = trace w @ new
       \<and> file_ops new = concat (map (size_file_ops d (nat iterations)) tensor_sizes)
       \<and> fs w' = fs w - (\<Union>sz\<in>set tensor_sizes. set (map (test_file d sz) [0..<nat iterations]))"
  using assms(2)
proof (induction tensor_sizes arbitrary: w)
  case Nil
  show ?case by (simp add: file_ops_def)
next
  case (Cons sz szs)
  let ?n = "nat iterations"
  let ?w1 = "w\<lparr>ticks := ticks w + 4 * ?n,
            trace := trace w
              @ concat (map (write_calls sys (ticks w) d sz) [0..<?n])
              @ concat (map (read_calls sys (ticks w + 2 * ?n) sz
                              (map (test_file d sz) [0..<?n])) [0..<?n])
              @ map Unlink (map (test_file d sz) [0..<?n]),
            fs := fs w - set (map (test_file d sz) [0..<?n])\<rparr>"
  from Cons.prems have sz: "0 \<le> sz" and cv: "converts_to_float sz"
    and rest: "\<forall>sz\<in>set szs. 0 \<le> sz \<and> converts_to_float sz" by simp_all
  have step: "benchmark_size sys lib h iterations d sz w = Inr ?w1"
    by (rule benchmark_size_ok [OF assms(1) sz assms(3) cv])
  from Cons.IH [OF rest, of ?w1] obtain w' new where
    run: "for_each (benchmark_size sys lib h iterations d) szs ?w1 = Inr w'"
    and tr: "trace w' = trace ?w1 @ new"
    and ops: "file_ops new = concat (map (size_file_ops d ?n) szs)"
    and files: "fs w' = fs ?w1 - (\<Union>sz\<in>set szs. set (map (test_file d sz) [0..<?n]))"
    by blast
  let ?new = "concat (map (write_calls sys (ticks w) d sz) [0..<?n])
              @ concat (map (read_calls sys (ticks w + 2 * ?n) sz
                              (map (test_file d sz) [0..<?n])) [0..<?n])
              @ map Unlink (map (test_file d sz) [0..<?n])"
  have 1: "for_each (benchmark_size sys lib h iterations d) (sz # szs) w = Inr w'"
    by (simp only: for_each.simps step sum.case run)
  have 2: "trace w' = trace w @ (?new @ new)"
    using tr by simp
  have "file_ops (?new @ new) = file_ops ?new @ file_ops new"
    by (rule file_ops_append)
  also have "\<dots> = size_file_ops d ?n sz @ concat (map (size_file_ops d ?n) szs)"
    by (simp only: file_ops_size ops)
  finally have 3: "file_ops (?new @ new) = concat (map (size_file_ops d ?n) (sz # szs))"
    by simp
  have 4: "fs w' = fs w - (\<Union>sz\<in>set (sz # szs). set (map (test_file d sz) [0..<?n]))"
    using files by auto
  from 1 2 3 4 show ?case by blast
qed


lemma benchmark_ok:
  assumes "0 < iterations"
    and "\<forall>sz\<in>set tensor_sizes. 0 \<le> sz \<and> converts_to_float sz"
    and "\<forall>k. perf_clock sys k < perf_clock sys (Suc k)"
  shows "\<exists>w' new. benchmark sys lib h tensor_sizes iterations d w = Inr w'
       \<and> new_events w w' = Mkdir d # new
       \<and> file_ops new = concat (map (size_file_ops d (nat iterations)) tensor_sizes)
       \<and> fs w' = (fs w \<union> set (map (\<lambda>k. take k d) [0..<Suc (length d)]))
                  - (\<Union>sz\<in>set tensor_sizes. set (map (test_file d sz) [0..<nat iterations]))"
proof -
  from sizes_loop_ok [OF assms, of lib h d "mkdir d w"] obtain w' new where
    run: "for_each (benchmark_size sys lib h iterations d) tensor_sizes (mkdir d w) = Inr w'"
    and tr: "trace w' = trace (mkdir d w) @ new"
    and ops: "file_ops new = concat (map (size_file_ops d (nat iterations)) tensor_sizes)"
    and files: "fs w' = fs (mkdir d w)
        - (\<Union>sz\<in>set tensor_sizes. set (map (test_file d sz) [0..<nat iterations]))"
    by blast
  have "benchmark sys lib h tensor_sizes iterations d w = Inr w'"
    using run by (simp add: benchmark_def Let_def)
  moreover have "new_events w w' = Mkdir d # new"
    using tr by (simp add: new_events_def mkdir_def log_event_def)
  moreover have "fs (mkdir d w) = fs w \<union> set (map (\<lambda>k. take k d) [0..<Suc (length d)])"
    by (simp add: mkdir_def log_event_def)
  ultimately show ?thesis using ops files by (simp only:) blast
qed

lemma filter_submit_file_ops: "filter is_submit (file_ops es) = filter is_submit es"
  by (induction es) (simp_all add: file_ops_def)

lemma filter_submit_size_file_ops:
  "filter is_submit (size_file_ops d n sz)
     = map (\<lambda>i. AsyncPwrite sz (test_file d sz i) 0) [0..<n]
       @ map (\<lambda>i. AsyncPread sz (test_file d sz i) 0) [0..<n]"
  by (simp add: size_file_ops_def is_submit_def filter_map comp_def)

text \<open>
  C4. When \<open>iterations\<close> is positive, \<^verbatim>\<open>torch.empty\<close> accepts every size, every size
  converts to a float for the statistics, and the clock advances between two readings, \<^verbatim>\<open>benchmark\<close> returns, and the operations it submitted
  are, size after size in the order of the list, the \<open>iterations\<close> writes of the size
  followed by its \<open>iterations\<close> reads, the \<open>i\<close>-th read on the file of the \<open>i\<close>-th write. For
  each size the write loop and the read loop collect \<open>iterations\<close> latencies each.
\<close>

theorem benchmark_writes_then_reads:
  assumes "0 < iterations"
    and "\<forall>sz\<in>set tensor_sizes. 0 \<le> sz \<and> converts_to_float sz"
    and "\<forall>k. perf_clock sys k < perf_clock sys (Suc k)"
  shows "(\<exists>w'. benchmark sys lib h tensor_sizes iterations d w = Inr w'
          \<and> filter is_submit (new_events w w')
              = concat (map (\<lambda>sz.
                    map (\<lambda>i. AsyncPwrite sz (test_file d sz i) 0) [0..<nat iterations]
                    @ map (\<lambda>i. AsyncPread sz (test_file d sz i) 0) [0..<nat iterations])
                  tensor_sizes))
       \<and> (\<forall>sz\<in>set tensor_sizes. \<forall>w0. \<exists>test_files write_latencies w1 read_latencies w2.
            write_phase sys h d sz iterations w0 = Inr (test_files, write_latencies, w1)
            \<and> int (length write_latencies) = iterations
            \<and> read_phase sys h sz iterations test_files w1
                = Inr (test_files, read_latencies, w2)
            \<and> int (length read_latencies) = iterations)"
proof (intro conjI ballI allI)
  from benchmark_ok [OF assms, of lib h d w] obtain w' new where
    run: "benchmark sys lib h tensor_sizes iterations d w = Inr w'"
    and ev: "new_events w w' = Mkdir d # new"
    and ops: "file_ops new = concat (map (size_file_ops d (nat iterations)) tensor_sizes)"
    by blast
  have "filter is_submit (new_events w w') = filter is_submit (file_ops new)"
    by (simp add: ev filter_submit_file_ops is_submit_def)
  also have "\<dots> = concat (map (\<lambda>sz.
                    map (\<lambda>i. AsyncPwrite sz (test_file d sz i) 0) [0..<nat iterations]
                    @ map (\<lambda>i. AsyncPread sz (test_file d sz i) 0) [0..<nat iterations])
                  tensor_sizes)"
    by (simp only: ops filter_concat map_map comp_def filter_submit_size_file_ops)
  finally show "\<exists>w'. benchmark sys lib h tensor_sizes iterations d w = Inr w'
          \<and> filter is_submit (new_events w w')
              = concat (map (\<lambda>sz.
                    map (\<lambda>i. AsyncPwrite sz (test_file d sz i) 0) [0..<nat iterations]
                    @ map (\<lambda>i. AsyncPread sz (test_file d sz i) 0) [0..<nat iterations])
                  tensor_sizes)"
    using run by blast
next
  fix sz w0
  assume "sz \<in> set tensor_sizes"
  with assms(2) have sz: "0 \<le> sz" by blast
  show "\<exists>test_files write_latencies w1 read_latencies w2.
            write_phase sys h d sz iterations w0 = Inr (test_files, write_latencies, w1)
            \<and> int (length write_latencies) = iterations
            \<and> read_phase sys h sz iterations test_files w1
                = Inr (test_files, read_latencies, w2)
            \<and> int (length read_latencies) = iterations"
    using assms(1) sz
    by (simp add: write_phase_def read_phase_def write_loop read_loop)
qed

theorem benchmark_writes_then_reads_witness:
  "(\<exists>w'. benchmark steady_system simple_lib some_handle [4, 8] 2 [''mnt'', ''t''] mnt_world
            = Inr w'
          \<and> filter is_submit (new_events mnt_world w')
              = [AsyncPwrite 4 (test_file [''mnt'', ''t''] 4 0) 0,
                 AsyncPwrite 4 (test_file [''mnt'', ''t''] 4 1) 0,
                 AsyncPread 4 (test_file [''mnt'', ''t''] 4 0) 0,
                 AsyncPread 4 (test_file [''mnt'', ''t''] 4 1) 0,
                 AsyncPwrite 8 (test_file [''mnt'', ''t''] 8 0) 0,
                 AsyncPwrite 8 (test_file [''mnt'', ''t''] 8 1) 0,
                 AsyncPread 8 (test_file [''mnt'', ''t''] 8 0) 0,
                 AsyncPread 8 (test_file [''mnt'', ''t''] 8 1) 0])"
proof -
  have u: "[0..<nat 2] = [0, 1]" by (simp add: upt_rec)
  show ?thesis
    using benchmark_writes_then_reads [where iterations = 2 and tensor_sizes = "[4, 8]"
        and sys = steady_system and lib = simple_lib and h = some_handle
        and d = "[''mnt'', ''t'']" and w = mnt_world] steady_clock
    by (simp only: u) (simp add: converts_to_float_def)
qed

text \<open>
  C7. In every run of \<^verbatim>\<open>benchmark\<close> the first call creates the target directory, after
  which the directory and its ancestors exist. The cleanup loop never raises, whether
  the files are there or not, and removes them. In a run where \<open>iterations\<close> is positive,
  every size is accepted and converts to a float, and the clock advances, \<^verbatim>\<open>benchmark\<close> returns; for each size the
  deletions of its test files follow its reads and precede the writes of the next size;
  and at the end none of the test files exists, while every other path is as
  \<^verbatim>\<open>mkdir\<close> left it.
\<close>

theorem benchmark_owns_test_files:
  "(\<exists>rest. new_events w (world_of (benchmark sys lib h tensor_sizes iterations d w))
              = Mkdir d # rest)
   \<and> (\<forall>k\<le>length d. take k d \<in> fs (mkdir d w))
   \<and> cleanup test_files w
        = Inr (w\<lparr>trace := trace w @ map Unlink test_files, fs := fs w - set test_files\<rparr>)
   \<and> (0 < iterations \<and> (\<forall>sz\<in>set tensor_sizes. 0 \<le> sz \<and> converts_to_float sz)
        \<and> (\<forall>k. perf_clock sys k < perf_clock sys (Suc k)) \<longrightarrow>
       (\<exists>w' calls. benchmark sys lib h tensor_sizes iterations d w = Inr w'
          \<and> new_events w w' = Mkdir d # calls
          \<and> file_ops calls = concat (map (size_file_ops d (nat iterations)) tensor_sizes)
          \<and> fs w' = (fs w \<union> set (map (\<lambda>k. take k d) [0..<Suc (length d)]))
                     - (\<Union>sz\<in>set tensor_sizes.
                          set (map (test_file d sz) [0..<nat iterations]))
          \<and> (\<forall>sz\<in>set tensor_sizes. \<forall>i<nat iterations. test_file d sz i \<notin> fs w')))"
proof (intro conjI impI)
  show "\<exists>rest. new_events w (world_of (benchmark sys lib h tensor_sizes iterations d w))
              = Mkdir d # rest"
    using benchmark_paired [of sys lib h tensor_sizes iterations d w]
    by (auto simp add: new_events_def)
next
  show "\<forall>k\<le>length d. take k d \<in> fs (mkdir d w)"
    by (auto simp add: mkdir_def log_event_def)
next
  show "cleanup test_files w
        = Inr (w\<lparr>trace := trace w @ map Unlink test_files, fs := fs w - set test_files\<rparr>)"
    by (rule cleanup_ok)
next
  assume a: "0 < iterations \<and> (\<forall>sz\<in>set tensor_sizes. 0 \<le> sz \<and> converts_to_float sz)
        \<and> (\<forall>k. perf_clock sys k < perf_clock sys (Suc k))"
  then have a1: "0 < iterations"
    and a2: "\<forall>sz\<in>set tensor_sizes. 0 \<le> sz \<and> converts_to_float sz"
    and a3: "\<forall>k. perf_clock sys k < perf_clock sys (Suc k)" by blast+
  from benchmark_ok [OF a1 a2 a3, of lib h d w] obtain w' new where
    run: "benchmark sys lib h tensor_sizes iterations d w = Inr w'"
    and ev: "new_events w w' = Mkdir d # new"
    and ops: "file_ops new = concat (map (size_file_ops d (nat iterations)) tensor_sizes)"
    and files: "fs w' = (fs w \<union> set (map (\<lambda>k. take k d) [0..<Suc (length d)]))
                  - (\<Union>sz\<in>set tensor_sizes. set (map (test_file d sz) [0..<nat iterations]))"
    by blast
  have "test_file d sz i
      \<in> (\<Union>sz\<in>set tensor_sizes. set (map (test_file d sz) [0..<nat iterations]))"
    if "sz \<in> set tensor_sizes" and "i < nat iterations" for sz i
    using that by force
  then have "\<forall>sz\<in>set tensor_sizes. \<forall>i<nat iterations. test_file d sz i \<notin> fs w'"
    unfolding files by blast
  with run ev ops files
  show "\<exists>w' calls. benchmark sys lib h tensor_sizes iterations d w = Inr w'
          \<and> new_events w w' = Mkdir d # calls
          \<and> file_ops calls = concat (map (size_file_ops d (nat iterations)) tensor_sizes)
          \<and> fs w' = (fs w \<union> set (map (\<lambda>k. take k d) [0..<Suc (length d)]))
                     - (\<Union>sz\<in>set tensor_sizes.
                          set (map (test_file d sz) [0..<nat iterations]))
          \<and> (\<forall>sz\<in>set tensor_sizes. \<forall>i<nat iterations. test_file d sz i \<notin> fs w')"
    by blast
qed

theorem benchmark_owns_test_files_witness:
  "(\<exists>w' calls. benchmark steady_system simple_lib some_handle [4] 2 [''mnt'', ''t''] mnt_world
            = Inr w'
          \<and> new_events mnt_world w' = Mkdir [''mnt'', ''t''] # calls
          \<and> file_ops calls
              = [AsyncPwrite 4 (test_file [''mnt'', ''t''] 4 0) 0,
                 AsyncPwrite 4 (test_file [''mnt'', ''t''] 4 1) 0,
                 AsyncPread 4 (test_file [''mnt'', ''t''] 4 0) 0,
                 AsyncPread 4 (test_file [''mnt'', ''t''] 4 1) 0,
                 Unlink (test_file [''mnt'', ''t''] 4 0),
                 Unlink (test_file [''mnt'', ''t''] 4 1)]
          \<and> test_file [''mnt'', ''t''] 4 0 \<notin> fs w'
          \<and> test_file [''mnt'', ''t''] 4 1 \<notin> fs w'
          \<and> [''mnt'', ''t''] \<in> fs w')"
proof -
  have u: "[0..<nat 2] = [0, 1]" by (simp add: upt_rec)
  have t: "[''mnt'', ''t''] \<noteq> test_file [''mnt'', ''t''] 4 i" for i
    by (simp add: test_file_def)
  have "\<exists>w' calls.
      benchmark steady_system simple_lib some_handle [4] 2 [''mnt'', ''t''] mnt_world = Inr w'
      \<and> new_events mnt_world w' = Mkdir [''mnt'', ''t''] # calls
      \<and> file_ops calls = concat (map (size_file_ops [''mnt'', ''t''] (nat 2)) [4])
      \<and> fs w' = (fs mnt_world
                   \<union> set (map (\<lambda>k. take k [''mnt'', ''t''])
                            [0..<Suc (length [''mnt'', ''t''])]))
                 - (\<Union>sz\<in>set [4]. set (map (test_file [''mnt'', ''t''] sz) [0..<nat 2]))
      \<and> (\<forall>sz\<in>set [4]. \<forall>i<nat 2. test_file [''mnt'', ''t''] sz i \<notin> fs w')"
    using benchmark_owns_test_files [where iterations = 2 and tensor_sizes = "[4]"
        and sys = steady_system and lib = simple_lib and h = some_handle
        and d = "[''mnt'', ''t'']" and w = mnt_world and test_files = "[]"] steady_clock
    by (simp only: list.set ball_simps) (simp add: converts_to_float_def)
  then obtain w' calls where
    "benchmark steady_system simple_lib some_handle [4] 2 [''mnt'', ''t''] mnt_world = Inr w'"
    "new_events mnt_world w' = Mkdir [''mnt'', ''t''] # calls"
    "file_ops calls = concat (map (size_file_ops [''mnt'', ''t''] (nat 2)) [4])"
    "fs w' = (fs mnt_world
                   \<union> set (map (\<lambda>k. take k [''mnt'', ''t''])
                            [0..<Suc (length [''mnt'', ''t''])]))
                 - (\<Union>sz\<in>set [4]. set (map (test_file [''mnt'', ''t''] sz) [0..<nat 2]))"
    by blast
  then show ?thesis
    using t by (simp only: u) (simp add: size_file_ops_def upt_rec)
qed

section \<open>Constructing the handle\<close>

lemma get_aio_handle_cases:
  "get_aio_handle sys bs qd th w =
     (case load_fault sys of
        Some e \<Rightarrow>
          Inl (RuntimeError (''Failed to initialize AIO handle: '' @ str_exn e),
               w\<lparr>trace := trace w @ [LoadAsyncIO]\<rparr>)
      | None \<Rightarrow>
          (case handle_fault sys bs qd False True th of
             Some e \<Rightarrow>
               Inl (RuntimeError (''Failed to initialize AIO handle: '' @ str_exn e),
                    w\<lparr>trace := trace w @ [LoadAsyncIO, NewHandle bs qd False True th]\<rparr>)
           | None \<Rightarrow>
               Inr (\<lparr>block_size = bs, queue_depth = qd, single_submit = False,
                     overlap_events = True, num_threads = th\<rparr>,
                    w\<lparr>trace := trace w @ [LoadAsyncIO, NewHandle bs qd False True th]\<rparr>)))"
  by (simp add: get_aio_handle_def get_aio_handle_try_def log_event_def Let_def
      split: option.splits)

text \<open>
  A block size of 3 is not a power of two, and \<^verbatim>\<open>get_aio_handle\<close> returns the handle that
  the library constructs for it.
\<close>

theorem get_aio_handle_block_size_counterexample:
  "\<not> positive_power_of_two 3
   \<and> get_aio_handle steady_system 3 64 16 mnt_world =
       Inr (\<lparr>block_size = 3, queue_depth = 64, single_submit = False, overlap_events = True,
             num_threads = 16\<rparr>,
            mnt_world\<lparr>trace := [LoadAsyncIO, NewHandle 3 64 False True 16]\<rparr>)"
  by (simp add: positive_power_of_two_def get_aio_handle_cases steady_system_def
      mnt_world_def)

text \<open>
  C5, as the code has it. \<^verbatim>\<open>get_aio_handle\<close> does not look at \<open>block_size\<close>: it returns the
  handle exactly when neither the loading of the extension nor the constructor of the
  library raises, for every block size, and whatever it raises is a \<^verbatim>\<open>RuntimeError\<close>.
\<close>

theorem get_aio_handle_raises_as_library:
  "((\<exists>r. get_aio_handle sys bs qd th w = Inr r)
      = (load_fault sys = None \<and> handle_fault sys bs qd False True th = None))
   \<and> (load_fault sys = None \<and> handle_fault sys bs qd False True th = None \<longrightarrow>
        get_aio_handle sys bs qd th w =
          Inr (\<lparr>block_size = bs, queue_depth = qd, single_submit = False,
                overlap_events = True, num_threads = th\<rparr>,
               w\<lparr>trace := trace w @ [LoadAsyncIO, NewHandle bs qd False True th]\<rparr>))
   \<and> (\<forall>e w'. get_aio_handle sys bs qd th w = Inl (e, w') \<longrightarrow> (\<exists>m. e = RuntimeError m))"
  by (auto simp add: get_aio_handle_cases split: option.splits)

theorem get_aio_handle_raises_as_library_witness:
  "(\<exists>r. get_aio_handle steady_system 3 64 16 mnt_world = Inr r)
   \<and> \<not> (\<exists>r. get_aio_handle no_handle_system 1024 64 16 mnt_world = Inr r)"
  using get_aio_handle_raises_as_library [of steady_system 3 64 16 mnt_world]
    get_aio_handle_raises_as_library [of no_handle_system 1024 64 16 mnt_world]
  by (simp add: steady_system_def no_handle_system_def)

lemma get_aio_handle_raise_world:
  assumes "get_aio_handle sys bs qd th w = Inl (e, w')"
  shows "(trace w' = trace w @ [LoadAsyncIO]
          \<or> trace w' = trace w @ [LoadAsyncIO, NewHandle bs qd False True th])
       \<and> fs w' = fs w"
  using assms by (auto simp add: get_aio_handle_cases split: option.splits)

lemma clean_nvme_dir_trace:
  "trace (world_of (clean_nvme_dir sys p w)) = trace w @ [Rmtree p]"
  by (auto simp add: clean_nvme_dir_def rmtree_def log_event_def world_of_def Let_def
      split: option.splits exn.splits)

text \<open>
  C6. When the loading of the extension or the constructor raises an exception \<open>e\<close>,
  \<^verbatim>\<open>get_aio_handle\<close> raises \<^verbatim>\<open>RuntimeError\<close> with the message of \<open>e\<close> and returns no
  handle, after the calls of the initialisation only. The \<^verbatim>\<open>try\<close> block of \<^verbatim>\<open>main\<close> and
  \<^verbatim>\<open>main\<close> itself then raise the same exception, and no write or read has been submitted.
\<close>

theorem init_failure_is_fatal:
  "(load_fault sys = Some e \<longrightarrow>
      get_aio_handle sys bs qd th w =
        Inl (RuntimeError (''Failed to initialize AIO handle: '' @ str_exn e),
             w\<lparr>trace := trace w @ [LoadAsyncIO]\<rparr>))
   \<and> (load_fault sys = None \<and> handle_fault sys bs qd False True th = Some e \<longrightarrow>
      get_aio_handle sys bs qd th w =
        Inl (RuntimeError (''Failed to initialize AIO handle: '' @ str_exn e),
             w\<lparr>trace := trace w @ [LoadAsyncIO, NewHandle bs qd False True th]\<rparr>))
   \<and> (get_aio_handle sys bs qd th w = Inl (e', w') \<longrightarrow>
        run_benchmark lib sys bs qd th tensor_sizes iterations p w = Inl (e', w')
        \<and> filter is_submit (new_events w w') = [])
   \<and> (parse_arguments b a = Inr (tensor_sizes, bs)
        \<and> butlast (arg_nvme_path a) \<in> fs v \<and> writable sys (butlast (arg_nvme_path a))
        \<and> clean_nvme_dir sys (arg_nvme_path a) v = Inr w
        \<and> get_aio_handle sys bs (arg_queue_depth a) (arg_threads a) w = Inl (e', w') \<longrightarrow>
        main b lib sys a v = Inl (e', w')
        \<and> filter is_submit (new_events v w') = [])"
proof (intro conjI impI)
  assume "load_fault sys = Some e"
  then show "get_aio_handle sys bs qd th w =
        Inl (RuntimeError (''Failed to initialize AIO handle: '' @ str_exn e),
             w\<lparr>trace := trace w @ [LoadAsyncIO]\<rparr>)"
    by (simp add: get_aio_handle_cases)
next
  assume "load_fault sys = None \<and> handle_fault sys bs qd False True th = Some e"
  then show "get_aio_handle sys bs qd th w =
        Inl (RuntimeError (''Failed to initialize AIO handle: '' @ str_exn e),
             w\<lparr>trace := trace w @ [LoadAsyncIO, NewHandle bs qd False True th]\<rparr>)"
    by (simp add: get_aio_handle_cases)
next
  assume a: "get_aio_handle sys bs qd th w = Inl (e', w')"
  then show "run_benchmark lib sys bs qd th tensor_sizes iterations p w = Inl (e', w')"
    by (simp add: run_benchmark_def)
  from get_aio_handle_raise_world [OF a]
  show "filter is_submit (new_events w w') = []"
    by (auto simp add: new_events_def is_submit_def)
next
  assume a: "parse_arguments b a = Inr (tensor_sizes, bs)
        \<and> butlast (arg_nvme_path a) \<in> fs v \<and> writable sys (butlast (arg_nvme_path a))
        \<and> clean_nvme_dir sys (arg_nvme_path a) v = Inr w
        \<and> get_aio_handle sys bs (arg_queue_depth a) (arg_threads a) w = Inl (e', w')"
  then show "main b lib sys a v = Inl (e', w')"
    by (simp add: main_def run_benchmark_def Let_def)
  from a clean_nvme_dir_trace [of sys "arg_nvme_path a" v]
  have t: "trace w = trace v @ [Rmtree (arg_nvme_path a)]"
    by (simp add: world_of_def)
  from a get_aio_handle_raise_world [of sys bs "arg_queue_depth a" "arg_threads a" w e' w']
  show "filter is_submit (new_events v w') = []"
    by (auto simp add: new_events_def is_submit_def t)
qed

lemma parse_some_args: "parse_arguments decimal_builtins some_args = Inr ([4], 1024)"
  by code_simp

lemma clean_missing:
  "clean_nvme_dir sys [''mnt'', ''t''] mnt_world
     = Inr (mnt_world\<lparr>trace := [Rmtree [''mnt'', ''t'']]\<rparr>)"
  by (simp add: clean_nvme_dir_def rmtree_def log_event_def mnt_world_def)

theorem init_failure_is_fatal_witness:
  "main decimal_builtins simple_lib no_handle_system some_args mnt_world =
     Inl (RuntimeError ''Failed to initialize AIO handle: incompatible constructor arguments'',
          mnt_world\<lparr>trace :=
            [Rmtree [''mnt'', ''t''], LoadAsyncIO, NewHandle 1024 4 False True 1]\<rparr>)"
proof -
  let ?w = "mnt_world\<lparr>trace := [Rmtree [''mnt'', ''t'']]\<rparr>"
  let ?e = "OtherException ''TypeError'' ''incompatible constructor arguments''"
  let ?r = "RuntimeError (''Failed to initialize AIO handle: '' @ str_exn ?e)"
  let ?w' = "?w\<lparr>trace := trace ?w @ [LoadAsyncIO, NewHandle 1024 4 False True 1]\<rparr>"
  note T = init_failure_is_fatal [where sys = no_handle_system and e = ?e
      and b = decimal_builtins and a = some_args and tensor_sizes = "[4]" and bs = 1024
      and qd = 4 and th = 1 and v = mnt_world and w = ?w and e' = ?r and w' = ?w'
      and lib = simple_lib and iterations = 2 and p = "[''mnt'', ''t'']"]
  have f: "load_fault no_handle_system = None
      \<and> handle_fault no_handle_system 1024 4 False True 1 = Some ?e"
    by (simp add: no_handle_system_def steady_system_def)
  have g: "get_aio_handle no_handle_system 1024 4 1 ?w = Inl (?r, ?w')"
    using T f by blast
  have p2: "butlast (arg_nvme_path some_args) \<in> fs mnt_world"
    by (simp add: some_args_def mnt_world_def)
  have p3: "writable no_handle_system (butlast (arg_nvme_path some_args))"
    by (simp add: no_handle_system_def steady_system_def)
  have p4: "clean_nvme_dir no_handle_system (arg_nvme_path some_args) mnt_world = Inr ?w"
    using clean_missing [of no_handle_system] by (simp add: some_args_def)
  have p5: "get_aio_handle no_handle_system 1024 (arg_queue_depth some_args)
      (arg_threads some_args) ?w = Inl (?r, ?w')"
    using g by (simp add: some_args_def)
  have "main decimal_builtins simple_lib no_handle_system some_args mnt_world = Inl (?r, ?w')"
    using T parse_some_args p2 p3 p4 p5 by blast
  then show ?thesis by (simp add: mnt_world_def)
qed

section \<open>Cleaning the target directory\<close>





end
